theory Spec2Isabelle
  imports Complex_Main "HOL-Library.AList"
begin

section \<open>Numbers\<close>

text \<open>
  JavaScript numbers are modelled by the reals; the rounding of IEEE doubles is left out.
  A division whose divisor is zero yields NaN or an infinity in JavaScript, and none of
  them is a real number: \<open>js_div\<close> has no result there.
\<close>

definition js_div :: "real \<Rightarrow> real \<Rightarrow> real option" where
  "js_div a b = (if b = 0 then None else Some (a / b))"


record point =
  px :: real
  py :: real

section \<open>Control points of a chained curve\<close>

text \<open>
  \<open>getControlPoints(x0, y0, x1, y1, x2, y2, t)\<close>: the two control points of the curve
  through from \<open>(x0, y0)\<close>, to \<open>(x1, y1)\<close> and eventual \<open>(x2, y2)\<close>. The result is the
  array \<open>[p1x, p1y, p2x, p2y]\<close>; it holds no numbers when \<open>d01 + d12\<close> is zero.
\<close>

definition getControlPoints ::
  "real \<Rightarrow> real \<Rightarrow> real \<Rightarrow> real \<Rightarrow> real \<Rightarrow> real \<Rightarrow> real \<Rightarrow> (real \<times> real \<times> real \<times> real) option" where
  "getControlPoints x0 y0 x1 y1 x2 y2 t =
     (let d01 = sqrt ((x1 - x0)\<^sup>2 + (y1 - y0)\<^sup>2);
          d12 = sqrt ((x2 - x1)\<^sup>2 + (y2 - y1)\<^sup>2)
      in case js_div (t * d01) (d01 + d12) of
           None \<Rightarrow> None
         | Some fa \<Rightarrow>
             (case js_div (t * d12) (d01 + d12) of
                None \<Rightarrow> None
              | Some fb \<Rightarrow>
                  (let p1x = x1 - fa * (x2 - x0);
                       p1y = y1 - fa * (y2 - y0);
                       p2x = x1 + fb * (x2 - x0);
                       p2y = y1 + fb * (y2 - y0)
                   in Some (p1x, p1y, p2x, p2y))))"

text \<open>Three points lie on one line when the cross product of the two differences is zero.\<close>

definition colinear :: "real \<times> real \<Rightarrow> real \<times> real \<Rightarrow> real \<times> real \<Rightarrow> bool" where
  "colinear p q r =
     ((fst q - fst p) * (snd r - snd p) - (snd q - snd p) * (fst r - fst p) = 0)"

section \<open>The ellipse shape\<close>




section \<open>Bezier edges\<close>













text \<open>
  Modelled from the spec: \<open>_getDistanceToLine\<close> is not among the sources; it is ``the
  minimum distance from the query point to that line segment'': the distance from
  \<open>(x3, y3)\<close> to the point of the segment from \<open>(x1, y1)\<close> to \<open>(x2, y2)\<close> nearest to it.
\<close>

definition getDistanceToLine :: "real \<Rightarrow> real \<Rightarrow> real \<Rightarrow> real \<Rightarrow> real \<Rightarrow> real \<Rightarrow> real" where
  "getDistanceToLine x1 y1 x2 y2 x3 y3 =
     (let dx = x2 - x1;
          dy = y2 - y1;
          len2 = dx * dx + dy * dy;
          u = (if len2 = 0 then 0
               else max 0 (min 1 (((x3 - x1) * dx + (y3 - y1) * dy) / len2)));
          cx = x1 + u * dx;
          cy = y1 + u * dy
      in sqrt ((cx - x3)\<^sup>2 + (cy - y3)\<^sup>2))"

text \<open>The \<open>for\<close> loop of \<open>_getDistanceToBezierEdge\<close>, from the value \<open>i\<close> of its counter on.\<close>

function getDistanceToBezierEdge_loop ::
  "real \<Rightarrow> real \<Rightarrow> real \<Rightarrow> real \<Rightarrow> real \<Rightarrow> real \<Rightarrow> point \<Rightarrow> nat \<Rightarrow> real \<Rightarrow> real \<Rightarrow> real \<Rightarrow> real" where
  "getDistanceToBezierEdge_loop x1 y1 x2 y2 x3 y3 via i minDistance lastX lastY =
     (if i < 10
      then (let t = 0.1 * real i;
                x = (1 - t)\<^sup>2 * x1 + 2 * t * (1 - t) * px via + t\<^sup>2 * x2;
                y = (1 - t)\<^sup>2 * y1 + 2 * t * (1 - t) * py via + t\<^sup>2 * y2;
                minDistance' =
                  (if i > 0
                   then (let distance = getDistanceToLine lastX lastY x y x3 y3
                         in if distance < minDistance then distance else minDistance)
                   else minDistance)
            in getDistanceToBezierEdge_loop x1 y1 x2 y2 x3 y3 via (i + 1) minDistance' x y)
      else minDistance)"
  by pat_completeness auto
termination
  by (relation "measure (\<lambda>(x1, y1, x2, y2, x3, y3, via, i, minDistance, lastX, lastY). 10 - i)")
    auto

definition getDistanceToBezierEdge ::
  "real \<Rightarrow> real \<Rightarrow> real \<Rightarrow> real \<Rightarrow> real \<Rightarrow> real \<Rightarrow> point \<Rightarrow> real" where
  "getDistanceToBezierEdge x1 y1 x2 y2 x3 y3 via =
     getDistanceToBezierEdge_loop x1 y1 x2 y2 x3 y3 via 1 1000000000 x1 y1"

text \<open>
  The distance as the specification words it: the path is sampled at
  \<open>t = 0.1, \<dots>, 0.9\<close>, the end points \<open>t = 0\<close> and \<open>t = 1\<close> are added, and the result is the
  least distance from the query point to a segment between two consecutive points.
\<close>

definition quadratic_point :: "real \<Rightarrow> real \<Rightarrow> real \<Rightarrow> real \<Rightarrow> point \<Rightarrow> real \<Rightarrow> real \<times> real" where
  "quadratic_point x1 y1 x2 y2 via t =
     ((1 - t)\<^sup>2 * x1 + 2 * t * (1 - t) * px via + t\<^sup>2 * x2,
      (1 - t)\<^sup>2 * y1 + 2 * t * (1 - t) * py via + t\<^sup>2 * y2)"

definition sampled_points :: "real \<Rightarrow> real \<Rightarrow> real \<Rightarrow> real \<Rightarrow> point \<Rightarrow> (real \<times> real) list" where
  "sampled_points x1 y1 x2 y2 via =
     map (\<lambda>i. quadratic_point x1 y1 x2 y2 via (real i / 10)) [0 ..< 11]"

fun segment_distances :: "(real \<times> real) list \<Rightarrow> real \<Rightarrow> real \<Rightarrow> real list" where
  "segment_distances (p # q # ps) x3 y3 =
     getDistanceToLine (fst p) (snd p) (fst q) (snd q) x3 y3 # segment_distances (q # ps) x3 y3"
| "segment_distances ps x3 y3 = []"

definition distanceToEdge_spec ::
  "real \<Rightarrow> real \<Rightarrow> real \<Rightarrow> real \<Rightarrow> real \<Rightarrow> real \<Rightarrow> point \<Rightarrow> real" where
  "distanceToEdge_spec x1 y1 x2 y2 x3 y3 via =
     Min (set (segment_distances (sampled_points x1 y1 x2 y2 via) x3 y3))"









section \<open>The network as the selection handler sees it\<close>

text \<open>
  Node and edge objects live in two stores and are referred to by reference, as in
  JavaScript: \<open>body.nodes\<close>, a node's \<open>edges\<close>, an edge's \<open>from\<close> and \<open>to\<close>, the hover maps and
  the selection all hold references to the same objects. A plain object used as a
  dictionary (\<open>body.nodes\<close>, \<open>body.edges\<close>, \<open>hoverObj.nodes\<close>, \<open>hoverObj.edges\<close>) is an
  association list from ids to references, its own properties; its order is the order in
  which JavaScript enumerates the keys.
\<close>

type_synonym id = string

type_synonym ref = nat

datatype error = TypeError string | RangeError string

record rect =
  r_left :: real
  r_top :: real
  r_right :: real
  r_bottom :: real

datatype item = NodeItem id | NodeLabelItem id nat | EdgeItem id | EdgeLabelItem id nat

text \<open>
  The fields and methods of a \<open>Node\<close> that the handler uses. \<open>isOverlappingWith\<close> and
  \<open>getItemsOnPoint\<close> are methods of the node, kept as functions.
\<close>

record node =
  node_id :: id
  node_options_id :: id
  node_x :: real
  node_y :: real
  node_level :: int
  node_hover :: bool
  node_isLabelNode :: bool
  node_edges :: "ref list"
  node_isOverlappingWith :: "rect \<Rightarrow> bool"
  node_getItemsOnPoint :: "point \<Rightarrow> item list"

text \<open>
  The fields and methods of an \<open>Edge\<close>; \<open>edge_from\<close> and \<open>edge_to\<close> are \<open>undefined\<close> (\<open>None\<close>)
  or a node, \<open>edge_eventualId\<close> is \<open>undefined\<close> on an edge between two nodes only, and
  \<open>edge_getDistanceToEdge\<close> is \<open>edge.edgeType.getDistanceToEdge\<close>.
\<close>

record edge =
  edge_id :: id
  edge_options_id :: id
  edge_fromId :: id
  edge_toId :: id
  edge_eventualId :: "id option"
  edge_from :: "ref option"
  edge_to :: "ref option"
  edge_connected :: bool
  edge_hover :: bool
  edge_getDistanceToEdge :: "real \<Rightarrow> real \<Rightarrow> real \<Rightarrow> real \<Rightarrow> real \<Rightarrow> real \<Rightarrow> real"
  edge_getItemsOnPoint :: "point \<Rightarrow> item list"

text \<open>An object that is an instance of \<open>Node\<close>, or else an edge.\<close>

datatype object = Node ref | Edge ref

subsection \<open>Plain objects as dictionaries\<close>

text \<open>
  \<open>hoverObj.nodes\<close> and \<open>hoverObj.edges\<close> are created as \<open>{}\<close>, and the handler goes through
  \<open>Object.prototype.hasOwnProperty.call\<close> where it asks whether \<open>body.nodes\<close> or
  \<open>body.edges\<close> has a key: the four dictionaries are plain objects. Reading \<open>obj[key]\<close> from
  a plain object gives its own property under \<open>key\<close> if it has one, else the property that
  it inherits from \<open>Object.prototype\<close> under that name, else \<open>undefined\<close>. The inherited
  properties are the functions below, and \<open>__proto__\<close>, which is \<open>Object.prototype\<close> itself.
  Each of them is an object: it is truthy, it is an instance of neither \<open>Node\<close> nor
  \<open>Edge\<close>, it has none of the properties \<open>id\<close>, \<open>level\<close>, \<open>hover\<close> and \<open>isLabelNode\<close>, and it
  converts to NaN where it is compared with a number.
\<close>

definition object_prototype_keys :: "string list" where
  "object_prototype_keys =
     [''constructor'', ''__defineGetter__'', ''__defineSetter__'', ''hasOwnProperty'',
      ''__lookupGetter__'', ''__lookupSetter__'', ''isPrototypeOf'', ''propertyIsEnumerable'',
      ''toString'', ''valueOf'', ''__proto__'', ''toLocaleString'']"

text \<open>
  \<open>get_property\<close> is \<open>obj[key]\<close> as a value: the node or edge stored under the key, a
  property inherited from \<open>Object.prototype\<close> (given by its name), or \<open>undefined\<close>, never a
  number; \<open>length\<close> is a key like any other. \<open>js_less\<close> is the comparison \<open>i < v\<close> of a
  number with such a value, which is false for \<open>undefined\<close> and for an object (they convert
  to NaN).
\<close>

datatype js_value = Undefined | Object ref | Number nat | Inherited string

definition get_property :: "(id \<times> ref) list \<Rightarrow> string \<Rightarrow> js_value" where
  "get_property obj key =
     (case map_of obj key of
        None \<Rightarrow> if key \<in> set object_prototype_keys then Inherited key else Undefined
      | Some r \<Rightarrow> Object r)"

fun js_less :: "nat \<Rightarrow> js_value \<Rightarrow> bool" where
  "js_less i Undefined = False"
| "js_less i (Object r) = False"
| "js_less i (Number n) = (i < n)"
| "js_less i (Inherited key) = False"

text \<open>
  JavaScript enumerates the own keys of an object (\<open>for ... in\<close>, \<open>Object.keys\<close>,
  \<open>Object.values\<close>) with the array indices first, in ascending order, and then the other
  keys in the order in which they were created. An array index is the decimal numeral,
  without leading zeros, of an integer below \<open>2^32 - 1\<close>. \<open>set_property\<close> is the assignment
  \<open>obj[key] = value\<close>: a key that the object has keeps its place, a new one is put where
  the enumeration will find it.
\<close>

definition is_digit :: "char \<Rightarrow> bool" where
  "is_digit c = (c \<in> set ''0123456789'')"

definition index_value :: "string \<Rightarrow> nat" where
  "index_value key = foldl (\<lambda>n c. 10 * n + (of_char c - 48)) 0 key"

definition is_index :: "string \<Rightarrow> bool" where
  "is_index key =
     (key \<noteq> [] \<and> list_all is_digit key \<and> (hd key \<noteq> CHR ''0'' \<or> key = ''0'')
      \<and> index_value key < 4294967295)"

definition set_property :: "id \<Rightarrow> ref \<Rightarrow> (id \<times> ref) list \<Rightarrow> (id \<times> ref) list" where
  "set_property key r obj =
     (if map_of obj key \<noteq> None \<or> \<not> is_index key then AList.update key r obj
      else takeWhile (\<lambda>kv. is_index (fst kv) \<and> index_value (fst kv) < index_value key) obj
           @ [(key, r)]
           @ dropWhile (\<lambda>kv. is_index (fst kv) \<and> index_value (fst kv) < index_value key) obj)"

text \<open>
  What \<open>selectObject\<close> may be handed, and what the edge set of the selection may hold: a
  node or an edge, or, read by \<open>setSelection\<close> from \<open>body.nodes\<close> or \<open>body.edges\<close>, a property
  inherited from \<open>Object.prototype\<close>, given by its name. \<open>member_id\<close> is the property \<open>id\<close>
  of such a value, \<open>undefined\<close> for an inherited one.
\<close>

datatype selectable = Instance object | Builtin string

subsection \<open>The selection accumulator\<close>

text \<open>
  Modelled from the spec: the class \<open>SelectionAccumulator\<close> (module \<open>./selection\<close>) is not
  among the sources. It holds ``a committed set of node ids and a committed set of edge
  ids, plus pending add/remove operations''; adds and deletes are idempotent; reads via
  \<open>getNodes\<close>/\<open>getEdges\<close> ``reflect the current committed+pending state''; \<open>commit()\<close> ``is
  the only mutator of the committed sets; it returns, for each collection,
  \<open>{added, deleted, previous}\<close>'', where \<open>previous\<close> ``is the committed set before this
  commit''. The handler passes the objects themselves, so the members of the node set are
  references to nodes (\<open>selectObject\<close> adds to it only an instance of \<open>Node\<close>) and the
  members of the edge set are whatever else it was handed; a set is a list without
  repetitions, in the order of insertion.
\<close>

datatype 'a staged = Add 'a | Delete 'a | Clear

record 'a collection =
  committed :: "'a list"
  pending :: "'a staged list"

fun apply_staged :: "'a list \<Rightarrow> 'a staged \<Rightarrow> 'a list" where
  "apply_staged xs (Add x) = (if x \<in> set xs then xs else xs @ [x])"
| "apply_staged xs (Delete x) = removeAll x xs"
| "apply_staged xs Clear = []"

definition current :: "'a collection \<Rightarrow> 'a list" where
  "current c = foldl apply_staged (committed c) (pending c)"

definition stage :: "'a staged list \<Rightarrow> 'a collection \<Rightarrow> 'a collection" where
  "stage ops c = c\<lparr>pending := pending c @ ops\<rparr>"

record 'a changes =
  added :: "'a list"
  deleted :: "'a list"
  previous :: "'a list"

definition commit_collection :: "'a collection \<Rightarrow> 'a changes \<times> 'a collection" where
  "commit_collection c =
     (let old = committed c;
          new = current c
      in (\<lparr>added = filter (\<lambda>x. x \<notin> set old) new,
           deleted = filter (\<lambda>x. x \<notin> set new) old,
           previous = old\<rparr>,
          \<lparr>committed = new, pending = []\<rparr>))"

record accumulator =
  acc_nodes :: "ref collection"
  acc_edges :: "selectable collection"

definition addNodes :: "ref list \<Rightarrow> accumulator \<Rightarrow> accumulator" where
  "addNodes rs a = a\<lparr>acc_nodes := stage (map Add rs) (acc_nodes a)\<rparr>"

definition addEdges :: "selectable list \<Rightarrow> accumulator \<Rightarrow> accumulator" where
  "addEdges rs a = a\<lparr>acc_edges := stage (map Add rs) (acc_edges a)\<rparr>"

definition deleteNodes :: "ref list \<Rightarrow> accumulator \<Rightarrow> accumulator" where
  "deleteNodes rs a = a\<lparr>acc_nodes := stage (map Delete rs) (acc_nodes a)\<rparr>"

definition deleteEdges :: "selectable list \<Rightarrow> accumulator \<Rightarrow> accumulator" where
  "deleteEdges rs a = a\<lparr>acc_edges := stage (map Delete rs) (acc_edges a)\<rparr>"

definition clear :: "accumulator \<Rightarrow> accumulator" where
  "clear a = a\<lparr>acc_nodes := stage [Clear] (acc_nodes a), acc_edges := stage [Clear] (acc_edges a)\<rparr>"

definition getNodes :: "accumulator \<Rightarrow> ref list" where
  "getNodes a = current (acc_nodes a)"

definition getEdges :: "accumulator \<Rightarrow> selectable list" where
  "getEdges a = current (acc_edges a)"

record selectionChanges =
  changes_nodes :: "ref changes"
  changes_edges :: "selectable changes"

definition commit :: "accumulator \<Rightarrow> selectionChanges \<times> accumulator" where
  "commit a =
     (case commit_collection (acc_nodes a) of
        (cn, ns) \<Rightarrow>
          (case commit_collection (acc_edges a) of
             (ce, es) \<Rightarrow>
               (\<lparr>changes_nodes = cn, changes_edges = ce\<rparr>, \<lparr>acc_nodes = ns, acc_edges = es\<rparr>)))"

subsection \<open>Events and the state of the handler\<close>

text \<open>The DOM event handed through to the listeners; only \<open>controlEdge\<close> is read.\<close>

record domEvent =
  controlEdge :: "string option"

text \<open>The properties of \<open>_initBaseEvent\<close>, and those that \<open>generateClickEvent\<close> adds.\<close>

record baseProps =
  bp_pointer :: "(point \<times> point) option"
  bp_event :: domEvent

record clickProps = baseProps +
  cp_nodes :: "id list"
  cp_edges :: "id option list"
  cp_previousSelection :: "(ref list \<times> selectable list) option"
  cp_items :: "item list option"
  cp_controlEdge :: "string option"

text \<open>
  What is sent through \<open>body.emitter.emit\<close>: the event name with its payload. The list of
  \<open>hoveredNodes\<close> may hold \<open>undefined\<close> entries.
\<close>

datatype emission =
    ClickEvent string clickProps
  | HoverEvent string baseProps id
  | HoveredNodes "id option list"
  | SelectedNodes "id list"
  | RequestRedraw

text \<open>
  To state in which order a method performs its steps, the state carries a trace: every
  emitted event and every entry into one of the four methods below is appended to it.
\<close>

datatype methodName = GetNodeAt | GetEdgeAt | UnselectAll | SelectObject

datatype action = Called methodName | Emitted emission

record handler =
  nodeObjects :: "ref \<Rightarrow> node"
  edgeObjects :: "ref \<Rightarrow> edge"
  body_nodes :: "(id \<times> ref) list"
  body_nodeIndices :: "id list"
  body_edges :: "(id \<times> ref) list"
  body_edgeIndices :: "id list"
  canvas_DOMtoCanvas :: "point \<Rightarrow> point"
  selectionAccumulator :: accumulator
  hoverObj_nodes :: "(id \<times> ref) list"
  hoverObj_edges :: "(id \<times> ref) list"
  opt_multiselect :: bool
  opt_selectable :: bool
  opt_selectConnectedEdges :: bool
  opt_hoverConnectedEdges :: bool
  lastHoveredNodes :: "id option list"
  window_isUserDragging :: "bool option"
  window_wasUserDragging :: "bool option"
  trace :: "action list"

definition emit :: "emission \<Rightarrow> handler \<Rightarrow> handler" where
  "emit e h = h\<lparr>trace := trace h @ [Emitted e]\<rparr>"

definition called :: "methodName \<Rightarrow> handler \<Rightarrow> handler" where
  "called m h = h\<lparr>trace := trace h @ [Called m]\<rparr>"

text \<open>The emitted events of a trace, in order.\<close>

fun emissions :: "action list \<Rightarrow> emission list" where
  "emissions [] = []"
| "emissions (Emitted e # as) = e # emissions as"
| "emissions (Called m # as) = emissions as"

text \<open>
  A method that may throw returns the error or its value, and the state as the throw or
  the return leaves it; \<open>bind_h\<close> runs the rest of a method after a call that returned.
\<close>

definition bind_h ::
  "(error + 'a) \<times> handler \<Rightarrow> ('a \<Rightarrow> handler \<Rightarrow> (error + 'b) \<times> handler) \<Rightarrow> (error + 'b) \<times> handler" where
  "bind_h m f = (case m of (Inl e, h) \<Rightarrow> (Inl e, h) | (Inr a, h) \<Rightarrow> f a h)"

text \<open>Reading a property of \<open>undefined\<close> throws a \<open>TypeError\<close>.\<close>

definition undefined_property :: error where
  "undefined_property = TypeError ''Cannot read properties of undefined''"

subsection \<open>Events\<close>

definition initBaseEvent :: "domEvent \<Rightarrow> point option \<Rightarrow> handler \<Rightarrow> baseProps" where
  "initBaseEvent event pointer h =
     \<lparr>bp_pointer = (case pointer of
                      None \<Rightarrow> None
                    | Some p \<Rightarrow> Some (\<lparr>px = px p, py = py p\<rparr>, canvas_DOMtoCanvas h p)),
      bp_event = event\<rparr>"

definition getSelectedNodeIds :: "handler \<Rightarrow> id list" where
  "getSelectedNodeIds h = map (\<lambda>r. node_id (nodeObjects h r)) (getNodes (selectionAccumulator h))"

definition member_id :: "handler \<Rightarrow> selectable \<Rightarrow> id option" where
  "member_id h ob =
     (case ob of
        Instance (Node r) \<Rightarrow> Some (node_id (nodeObjects h r))
      | Instance (Edge r) \<Rightarrow> Some (edge_id (edgeObjects h r))
      | Builtin key \<Rightarrow> None)"

definition getSelectedEdgeIds :: "handler \<Rightarrow> id option list" where
  "getSelectedEdgeIds h = map (member_id h) (getEdges (selectionAccumulator h))"

definition getSelection :: "handler \<Rightarrow> id list \<times> id option list" where
  "getSelection h = (getSelectedNodeIds h, getSelectedEdgeIds h)"

text \<open>The two loops of \<open>getClickedItems\<close>, over the indices from the last to the first.\<close>

fun clicked_nodes :: "handler \<Rightarrow> point \<Rightarrow> id list \<Rightarrow> item list \<Rightarrow> error + item list" where
  "clicked_nodes h p [] items = Inr items"
| "clicked_nodes h p (i # is) items =
     (case map_of (body_nodes h) i of
        None \<Rightarrow> Inl undefined_property
      | Some r \<Rightarrow> clicked_nodes h p is (items @ node_getItemsOnPoint (nodeObjects h r) p))"

fun clicked_edges :: "handler \<Rightarrow> point \<Rightarrow> id list \<Rightarrow> item list \<Rightarrow> error + item list" where
  "clicked_edges h p [] items = Inr items"
| "clicked_edges h p (i # is) items =
     (case map_of (body_edges h) i of
        None \<Rightarrow> Inl undefined_property
      | Some r \<Rightarrow> clicked_edges h p is (items @ edge_getItemsOnPoint (edgeObjects h r) p))"

definition getClickedItems :: "point \<Rightarrow> handler \<Rightarrow> error + item list" where
  "getClickedItems pointer h =
     (let p = canvas_DOMtoCanvas h pointer
      in case clicked_nodes h p (rev (body_nodeIndices h)) [] of
           Inl e \<Rightarrow> Inl e
         | Inr items \<Rightarrow> clicked_edges h p (rev (body_edgeIndices h)) items)"

definition generateClickEvent ::
  "string \<Rightarrow> domEvent \<Rightarrow> point \<Rightarrow> (ref list \<times> selectable list) option \<Rightarrow> bool \<Rightarrow> handler
     \<Rightarrow> (error + unit) \<times> handler" where
  "generateClickEvent eventType event pointer oldSelection emptySelection h =
     (let properties = initBaseEvent event (Some pointer) h;
          tmp = (if emptySelection then ([], []) else getSelection h)
      in case (if eventType = ''click'' then map_sum id Some (getClickedItems pointer h)
               else Inr None) of
           Inl e \<Rightarrow> (Inl e, h)
         | Inr items \<Rightarrow>
             (Inr (),
              emit (ClickEvent eventType
                      \<lparr>bp_pointer = bp_pointer properties, bp_event = bp_event properties,
                       cp_nodes = fst tmp, cp_edges = snd tmp,
                       cp_previousSelection = oldSelection,
                       cp_items = items,
                       cp_controlEdge = controlEdge event\<rparr>) h))"

subsection \<open>Selecting\<close>

text \<open>
  \<open>selectObject(obj, highlightEdges)\<close>; an argument left out (\<open>None\<close>) takes the option
  \<open>selectConnectedEdges\<close>.
\<close>

definition selectObject :: "selectable option \<Rightarrow> bool option \<Rightarrow> handler \<Rightarrow> bool \<times> handler" where
  "selectObject obj highlightArg h0 =
     (let h = called SelectObject h0;
          highlightEdges = (case highlightArg of None \<Rightarrow> opt_selectConnectedEdges h | Some b \<Rightarrow> b)
      in case obj of
           Some ob \<Rightarrow>
             (let acc = selectionAccumulator h;
                  acc' = (case ob of
                            Instance (Node r) \<Rightarrow>
                              addNodes [r]
                                (if highlightEdges
                                 then addEdges (map (\<lambda>e. Instance (Edge e))
                                                  (node_edges (nodeObjects h r))) acc
                                 else acc)
                          | Instance (Edge r) \<Rightarrow> addEdges [ob] acc
                          | Builtin key \<Rightarrow> addEdges [ob] acc);
                  selectedNodes = map (\<lambda>r. node_id (nodeObjects h r)) (getNodes acc')
              in (True, emit (SelectedNodes selectedNodes) (h\<lparr>selectionAccumulator := acc'\<rparr>)))
         | None \<Rightarrow> (False, emit (SelectedNodes []) h))"

definition unselectAll :: "handler \<Rightarrow> handler" where
  "unselectAll h0 =
     (let h = called UnselectAll h0
      in h\<lparr>selectionAccumulator := clear (selectionAccumulator h)\<rparr>)"

subsection \<open>Hit testing\<close>

fun getAllNodesOverlappingWith_loop ::
  "handler \<Rightarrow> rect \<Rightarrow> id list \<Rightarrow> id list \<Rightarrow> error + id list" where
  "getAllNodesOverlappingWith_loop h object [] overlappingNodes = Inr overlappingNodes"
| "getAllNodesOverlappingWith_loop h object (nodeId # rest) overlappingNodes =
     (case map_of (body_nodes h) nodeId of
        None \<Rightarrow> Inl undefined_property
      | Some r \<Rightarrow>
          getAllNodesOverlappingWith_loop h object rest
            (if node_isOverlappingWith (nodeObjects h r) object
             then overlappingNodes @ [nodeId] else overlappingNodes))"

definition getAllNodesOverlappingWith :: "rect \<Rightarrow> handler \<Rightarrow> error + id list" where
  "getAllNodesOverlappingWith object h =
     getAllNodesOverlappingWith_loop h object (body_nodeIndices h) []"

definition pointerToPositionObject :: "point \<Rightarrow> handler \<Rightarrow> rect" where
  "pointerToPositionObject pointer h =
     (let canvasPos = canvas_DOMtoCanvas h pointer
      in \<lparr>r_left = px canvasPos - 1, r_top = py canvasPos + 1,
          r_right = px canvasPos + 1, r_bottom = py canvasPos - 1\<rparr>)"

text \<open>
  \<open>getNodeAt(pointer, returnNode)\<close> returns a node when \<open>returnNode\<close> is true, the default,
  and an id otherwise: \<open>getNodeAt\<close> is the call with \<open>returnNode = true\<close>, \<open>getNodeIdAt\<close> the
  one with \<open>returnNode = false\<close>.
\<close>

definition getNodeIdAt :: "point \<Rightarrow> handler \<Rightarrow> (error + id option) \<times> handler" where
  "getNodeIdAt pointer h0 =
     (let h = called GetNodeAt h0;
          positionObject = pointerToPositionObject pointer h
      in case getAllNodesOverlappingWith positionObject h of
           Inl e \<Rightarrow> (Inl e, h)
         | Inr overlappingNodes \<Rightarrow>
             (if length overlappingNodes > 0 then (Inr (Some (last overlappingNodes)), h)
              else (Inr None, h)))"

definition getNodeAt :: "point \<Rightarrow> handler \<Rightarrow> (error + ref option) \<times> handler" where
  "getNodeAt pointer h0 =
     (let h = called GetNodeAt h0;
          positionObject = pointerToPositionObject pointer h
      in case getAllNodesOverlappingWith positionObject h of
           Inl e \<Rightarrow> (Inl e, h)
         | Inr overlappingNodes \<Rightarrow>
             (if length overlappingNodes > 0
              then (Inr (map_of (body_nodes h) (last overlappingNodes)), h)
              else (Inr None, h)))"

text \<open>The loop of \<open>getEdgeAt\<close> over \<open>body.edgeIndices\<close>.\<close>

fun getEdgeAt_loop ::
  "handler \<Rightarrow> point \<Rightarrow> id list \<Rightarrow> real \<Rightarrow> id option \<Rightarrow> error + id option" where
  "getEdgeAt_loop h canvasPos [] mindist overlappingEdge = Inr overlappingEdge"
| "getEdgeAt_loop h canvasPos (edgeId # rest) mindist overlappingEdge =
     (case map_of (body_edges h) edgeId of
        None \<Rightarrow> Inl undefined_property
      | Some r \<Rightarrow>
          (let edge = edgeObjects h r
           in if edge_connected edge
              then (case edge_from edge of
                      None \<Rightarrow> Inl undefined_property
                    | Some f \<Rightarrow>
                        (case edge_to edge of
                           None \<Rightarrow> Inl undefined_property
                         | Some t \<Rightarrow>
                             (let xFrom = node_x (nodeObjects h f);
                                  yFrom = node_y (nodeObjects h f);
                                  xTo = node_x (nodeObjects h t);
                                  yTo = node_y (nodeObjects h t);
                                  dist = edge_getDistanceToEdge edge xFrom yFrom xTo yTo
                                           (px canvasPos) (py canvasPos)
                              in if dist < mindist
                                 then getEdgeAt_loop h canvasPos rest dist (Some edgeId)
                                 else getEdgeAt_loop h canvasPos rest mindist overlappingEdge)))
              else getEdgeAt_loop h canvasPos rest mindist overlappingEdge))"

definition getEdgeIdAt :: "point \<Rightarrow> handler \<Rightarrow> (error + id option) \<times> handler" where
  "getEdgeIdAt pointer h0 =
     (let h = called GetEdgeAt h0;
          canvasPos = canvas_DOMtoCanvas h pointer
      in (getEdgeAt_loop h canvasPos (body_edgeIndices h) 10 None, h))"

definition getEdgeAt :: "point \<Rightarrow> handler \<Rightarrow> (error + ref option) \<times> handler" where
  "getEdgeAt pointer h0 =
     (let h = called GetEdgeAt h0;
          canvasPos = canvas_DOMtoCanvas h pointer
      in case getEdgeAt_loop h canvasPos (body_edgeIndices h) 10 None of
           Inl e \<Rightarrow> (Inl e, h)
         | Inr None \<Rightarrow> (Inr None, h)
         | Inr (Some overlappingEdge) \<Rightarrow> (Inr (map_of (body_edges h) overlappingEdge), h))"



subsection \<open>Committing the selection\<close>

definition commitAndEmit :: "point \<Rightarrow> domEvent \<Rightarrow> handler \<Rightarrow> (error + unit) \<times> handler" where
  "commitAndEmit pointer event h0 =
     (case commit (selectionAccumulator h0) of
        (selectionChanges, acc) \<Rightarrow>
          (let h = h0\<lparr>selectionAccumulator := acc\<rparr>;
               previousSelection = (previous (changes_nodes selectionChanges),
                                    previous (changes_edges selectionChanges))
           in bind_h (if length (deleted (changes_edges selectionChanges)) > 0
                      then bind_h (generateClickEvent ''deselectEdge'' event pointer
                                     (Some previousSelection) False h)
                             (\<lambda>u h'. (Inr True, h'))
                      else (Inr False, h))
             (\<lambda>selected1 h1.
                bind_h (if length (deleted (changes_nodes selectionChanges)) > 0
                        then bind_h (generateClickEvent ''deselectNode'' event pointer
                                       (Some previousSelection) False h1)
                               (\<lambda>u h'. (Inr True, h'))
                        else (Inr selected1, h1))
               (\<lambda>selected2 h2.
                  bind_h (if length (added (changes_nodes selectionChanges)) > 0
                          then bind_h (generateClickEvent ''selectNode'' event pointer None False h2)
                                 (\<lambda>u h'. (Inr True, h'))
                          else (Inr selected2, h2))
                 (\<lambda>selected3 h3.
                    bind_h (if length (added (changes_edges selectionChanges)) > 0
                            then bind_h (generateClickEvent ''selectEdge'' event pointer None False h3)
                                   (\<lambda>u h'. (Inr True, h'))
                            else (Inr selected3, h3))
                   (\<lambda>selected h4.
                      if selected
                      then generateClickEvent ''select'' event pointer None False h4
                      else (Inr (), h4)))))))"

subsection \<open>Setting the selection\<close>

record selectionArg =
  sel_nodes :: "id list option"
  sel_edges :: "id list option"

record selectionOptions =
  so_unselectAll :: "bool option"
  so_highlightEdges :: "bool option"

text \<open>
  The two loops of \<open>setSelection\<close>. \<open>this.body.nodes[id]\<close> and \<open>this.body.edges[id]\<close> are
  reads of a plain object: an own property, else an inherited one, else \<open>undefined\<close>. Only
  \<open>undefined\<close> is falsy and throws; an inherited property is truthy, has no \<open>isLabelNode\<close>,
  and is handed to \<open>selectObject\<close>.
\<close>

fun setSelection_nodes :: "id list \<Rightarrow> selectionOptions \<Rightarrow> handler \<Rightarrow> (error + unit) \<times> handler" where
  "setSelection_nodes [] options h = (Inr (), h)"
| "setSelection_nodes (i # is) options h =
     (case map_of (body_nodes h) i of
        Some r \<Rightarrow>
          setSelection_nodes is options
            (if \<not> node_isLabelNode (nodeObjects h r)
             then snd (selectObject (Some (Instance (Node r))) (so_highlightEdges options) h)
             else h)
      | None \<Rightarrow>
          if i \<in> set object_prototype_keys
          then setSelection_nodes is options
                 (snd (selectObject (Some (Builtin i)) (so_highlightEdges options) h))
          else (Inl (RangeError (''Node with id \"'' @ i @ ''\" not found'')), h))"

fun setSelection_edges :: "id list \<Rightarrow> handler \<Rightarrow> (error + unit) \<times> handler" where
  "setSelection_edges [] h = (Inr (), h)"
| "setSelection_edges (i # is) h =
     (case map_of (body_edges h) i of
        Some r \<Rightarrow> setSelection_edges is (snd (selectObject (Some (Instance (Edge r))) None h))
      | None \<Rightarrow>
          if i \<in> set object_prototype_keys
          then setSelection_edges is (snd (selectObject (Some (Builtin i)) None h))
          else (Inl (RangeError (''Edge with id \"'' @ i @ ''\" not found'')), h))"

text \<open>
  \<open>setSelection(selection, options)\<close>. A \<open>selection\<close> that is \<open>null\<close> or \<open>undefined\<close> is
  \<open>None\<close>, as is a property \<open>nodes\<close> or \<open>edges\<close> that is missing.
\<close>

definition setSelection ::
  "selectionArg option \<Rightarrow> selectionOptions \<Rightarrow> handler \<Rightarrow> (error + unit) \<times> handler" where
  "setSelection selection options h0 =
     (case selection of
        None \<Rightarrow>
          (Inl (TypeError ''Selection must be an object with nodes and/or edges properties''), h0)
      | Some sel \<Rightarrow>
          if sel_nodes sel = None \<and> sel_edges sel = None
          then (Inl (TypeError ''Selection must be an object with nodes and/or edges properties''),
                h0)
          else
            (let h1 = (if so_unselectAll options = Some True \<or> so_unselectAll options = None
                       then unselectAll h0 else h0)
             in bind_h (case sel_nodes sel of
                          None \<Rightarrow> (Inr (), h1)
                        | Some ids \<Rightarrow> setSelection_nodes ids options h1)
                  (\<lambda>u h2.
                     bind_h (case sel_edges sel of
                               None \<Rightarrow> (Inr (), h2)
                             | Some ids \<Rightarrow> setSelection_edges ids h2)
                       (\<lambda>u h3.
                          (let h4 = emit RequestRedraw h3
                           in (Inr (), h4\<lparr>selectionAccumulator :=
                                             snd (commit (selectionAccumulator h4))\<rparr>))))))"

subsection \<open>Hovering\<close>

definition setNodeHover :: "ref \<Rightarrow> bool \<Rightarrow> handler \<Rightarrow> handler" where
  "setNodeHover r b h = h\<lparr>nodeObjects := (nodeObjects h)(r := (nodeObjects h r)\<lparr>node_hover := b\<rparr>)\<rparr>"

definition setEdgeHover :: "ref \<Rightarrow> bool \<Rightarrow> handler \<Rightarrow> handler" where
  "setEdgeHover r b h = h\<lparr>edgeObjects := (edgeObjects h)(r := (edgeObjects h r)\<lparr>edge_hover := b\<rparr>)\<rparr>"

definition addToHover :: "object \<Rightarrow> handler \<Rightarrow> handler" where
  "addToHover obj h =
     (case obj of
        Node r \<Rightarrow> h\<lparr>hoverObj_nodes := set_property (node_id (nodeObjects h r)) r (hoverObj_nodes h)\<rparr>
      | Edge r \<Rightarrow> h\<lparr>hoverObj_edges := set_property (edge_id (edgeObjects h r)) r (hoverObj_edges h)\<rparr>)"

text \<open>
  The first loop of \<open>_hoverConnectedEdges\<close> runs \<open>i\<close> from 0 while
  \<open>i < this.body.nodes.length\<close> and reads \<open>this.body.nodes[i]\<close>. \<open>body.nodes\<close> is the object
  that maps node ids to nodes (\<open>this.body.nodes[id]\<close>,
  \<open>hasOwnProperty.call(this.body.nodes, node.id)\<close>, \<open>nodes[nodeId]\<close> for the ids of
  \<open>body.nodeIndices\<close>), so \<open>length\<close> and \<open>i\<close> are keys like any other: \<open>get_property\<close> reads
  a key and never yields a number, and the comparison \<open>js_less\<close> with what it yields is
  false.
\<close>

text \<open>The key that a number, or \<open>undefined\<close>, stands for when it indexes an object.\<close>

fun string_of_nat :: "nat \<Rightarrow> string" where
  "string_of_nat n =
     (if n < 10 then [char_of (48 + n)]
      else string_of_nat (n div 10) @ [char_of (48 + n mod 10)])"

definition key_of :: "id option \<Rightarrow> string" where
  "key_of k = (case k of None \<Rightarrow> ''undefined'' | Some i \<Rightarrow> i)"

function hoverAllNodes_loop :: "nat \<Rightarrow> handler \<Rightarrow> (error + unit) \<times> handler" where
  "hoverAllNodes_loop i h =
     (if js_less i (get_property (body_nodes h) ''length'')
      then (case map_of (body_nodes h) (string_of_nat i) of
              None \<Rightarrow> (Inl undefined_property, h)
            | Some r \<Rightarrow> hoverAllNodes_loop (i + 1) (addToHover (Node r) (setNodeHover r True h)))
      else (Inr (), h))"
  by pat_completeness auto
termination
  by (relation "{}") (auto simp: get_property_def object_prototype_keys_def split: option.splits)

fun hoverEdges_loop :: "ref list \<Rightarrow> handler \<Rightarrow> handler" where
  "hoverEdges_loop [] h = h"
| "hoverEdges_loop (r # rs) h = hoverEdges_loop rs (addToHover (Edge r) (setEdgeHover r True h))"

definition hoverConnectedEdges :: "ref \<Rightarrow> handler \<Rightarrow> (error + unit) \<times> handler" where
  "hoverConnectedEdges node h =
     bind_h (hoverAllNodes_loop 0 h)
       (\<lambda>u h1. (Inr (), hoverEdges_loop (node_edges (nodeObjects h1 node)) h1))"

definition emitBlurEvent :: "domEvent \<Rightarrow> point \<Rightarrow> object \<Rightarrow> handler \<Rightarrow> handler" where
  "emitBlurEvent event pointer obj h =
     (let properties = initBaseEvent event (Some pointer) h
      in case obj of
           Node r \<Rightarrow>
             if node_hover (nodeObjects h r)
             then emit (HoverEvent ''blurNode'' properties (node_id (nodeObjects h r)))
                    (setNodeHover r False h)
             else h
         | Edge r \<Rightarrow>
             if edge_hover (edgeObjects h r)
             then emit (HoverEvent ''blurEdge'' properties (edge_id (edgeObjects h r)))
                    (setEdgeHover r False h)
             else h)"

definition emitHoverEvent :: "domEvent \<Rightarrow> point \<Rightarrow> object \<Rightarrow> handler \<Rightarrow> bool \<times> handler" where
  "emitHoverEvent event pointer obj h =
     (let properties = initBaseEvent event (Some pointer) h
      in case obj of
           Node r \<Rightarrow>
             if \<not> node_hover (nodeObjects h r)
             then (True, emit (HoverEvent ''hoverNode'' properties (node_id (nodeObjects h r)))
                           (addToHover obj (setNodeHover r True h)))
             else (False, h)
         | Edge r \<Rightarrow>
             if \<not> edge_hover (edgeObjects h r)
             then (True, emit (HoverEvent ''hoverEdge'' properties (edge_id (edgeObjects h r)))
                           (addToHover obj (setEdgeHover r True h)))
             else (False, h))"

text \<open>
  The closure \<open>find_subordinate_nodes\<close> of \<open>hoverObject\<close> (its parameter \<open>node_id\<close> is
  \<open>nodeId\<close> here) with the array
  \<open>subordinate_nodes\<close> that it fills, and the loop over \<open>edges_with_to_node\<close> in it. Its
  condition reads \<open>this.body.nodes[node_id]\<close>, a plain object: \<open>undefined\<close> is falsy, a node
  has its level, and an inherited property is truthy and has no level, which differs from
  0. The recursion need not end; the first argument bounds its depth, and the result is
  \<open>None\<close> when the bound is reached.
\<close>

fun find_subordinate_nodes ::
    "nat \<Rightarrow> handler \<Rightarrow> id option \<Rightarrow> id option list \<Rightarrow> id option list option"
  and find_subordinate_edges ::
    "nat \<Rightarrow> handler \<Rightarrow> edge list \<Rightarrow> id option list \<Rightarrow> id option list option" where
  "find_subordinate_nodes 0 h nodeId subordinate_nodes = None"
| "find_subordinate_nodes (Suc n) h nodeId subordinate_nodes =
     (if (case map_of (body_nodes h) (key_of nodeId) of
            None \<Rightarrow> key_of nodeId \<in> set object_prototype_keys
          | Some r \<Rightarrow> node_level (nodeObjects h r) \<noteq> 0)
      then find_subordinate_edges n h
             (filter (\<lambda>edge. Some (edge_toId edge) = nodeId)
                (map (\<lambda>kv. edgeObjects h (snd kv)) (body_edges h)))
             subordinate_nodes
      else Some subordinate_nodes)"
| "find_subordinate_edges n h [] subordinate_nodes = Some subordinate_nodes"
| "find_subordinate_edges n h (edge # edges_with_to_node) subordinate_nodes =
     (case find_subordinate_nodes n h (Some (edge_fromId edge))
             (subordinate_nodes @ [Some (edge_fromId edge), edge_eventualId edge]) of
        None \<Rightarrow> None
      | Some s1 \<Rightarrow>
          (case find_subordinate_nodes n h (edge_eventualId edge) s1 of
             None \<Rightarrow> None
           | Some s2 \<Rightarrow> find_subordinate_edges n h edges_with_to_node s2))"

text \<open>
  The two \<open>for ... in\<close> loops of \<open>hoverObject\<close> over the keys of the hover maps. They are
  handed the keys that the map has when the loop starts, in the order of enumeration, which
  is the order of the association list (\<open>set_property\<close> and \<open>AList.delete\<close> keep it); a key
  that the loop has deleted before it reaches it is the case \<open>None\<close>.
\<close>

fun blurNodes_loop ::
  "domEvent \<Rightarrow> point \<Rightarrow> object option \<Rightarrow> id list \<Rightarrow> bool \<Rightarrow> handler \<Rightarrow> bool \<times> handler" where
  "blurNodes_loop event pointer object [] hoverChanged h = (hoverChanged, h)"
| "blurNodes_loop event pointer object (nodeId # rest) hoverChanged h =
     (case map_of (hoverObj_nodes h) nodeId of
        None \<Rightarrow> blurNodes_loop event pointer object rest hoverChanged h
      | Some r \<Rightarrow>
          if (case object of
                None \<Rightarrow> True
              | Some (Node ob) \<Rightarrow> node_id (nodeObjects h ob) \<noteq> nodeId
              | Some (Edge ob) \<Rightarrow> True)
          then blurNodes_loop event pointer object rest True
                 ((emitBlurEvent event pointer (Node r) h)
                    \<lparr>hoverObj_nodes := AList.delete nodeId (hoverObj_nodes h)\<rparr>)
          else blurNodes_loop event pointer object rest hoverChanged h)"

fun blurEdges_loop ::
  "domEvent \<Rightarrow> point \<Rightarrow> object option \<Rightarrow> id list \<Rightarrow> bool \<Rightarrow> handler \<Rightarrow> bool \<times> handler" where
  "blurEdges_loop event pointer object [] hoverChanged h = (hoverChanged, h)"
| "blurEdges_loop event pointer object (edgeId # rest) hoverChanged h =
     (case map_of (hoverObj_edges h) edgeId of
        None \<Rightarrow> blurEdges_loop event pointer object rest hoverChanged h
      | Some r \<Rightarrow>
          if hoverChanged
          then blurEdges_loop event pointer object rest hoverChanged
                 ((setEdgeHover r False h)\<lparr>hoverObj_edges := AList.delete edgeId (hoverObj_edges h)\<rparr>)
          else if (case object of
                     None \<Rightarrow> True
                   | Some (Edge ob) \<Rightarrow> edge_id (edgeObjects h ob) \<noteq> edgeId
                   | Some (Node ob) \<Rightarrow> \<not> node_hover (nodeObjects h ob))
          then blurEdges_loop event pointer object rest True
                 ((emitBlurEvent event pointer (Edge r) h)
                    \<lparr>hoverObj_edges := AList.delete edgeId (hoverObj_edges h)\<rparr>)
          else blurEdges_loop event pointer object rest hoverChanged h)"

text \<open>
  The loop of \<open>hoverObject\<close> that hovers the subordinate nodes found. Where
  \<open>this.body.nodes[...]\<close> is \<open>undefined\<close> nothing is done, and an inherited property has no
  \<open>hover\<close>, so that \<open>emitHoverEvent\<close> leaves it alone: both are the case \<open>None\<close>.
\<close>

fun hoverSubordinates_loop :: "domEvent \<Rightarrow> point \<Rightarrow> id option list \<Rightarrow> handler \<Rightarrow> handler" where
  "hoverSubordinates_loop event pointer [] h = h"
| "hoverSubordinates_loop event pointer (i # is) h =
     (case map_of (body_nodes h) (key_of i) of
        None \<Rightarrow> hoverSubordinates_loop event pointer is h
      | Some r \<Rightarrow> hoverSubordinates_loop event pointer is (snd (emitHoverEvent event pointer (Node r) h)))"

text \<open>
  \<open>hoverObject(event, pointer)\<close>, in the order of its statements. Inside
  \<open>if (object !== undefined)\<close>, which is \<open>hoverObject_hit\<close>, there are three blocks:
  \<open>hoverObject_emit\<close> up to the hover event of the hit object, \<open>hoverObject_connected\<close>
  for the connected edges, and \<open>hoverObject_subordinates\<close> for the subordinate nodes.
  \<open>hoverObject_rest\<close> is the method after the hit test, and \<open>hoverObject_blur\<close> its part
  before \<open>if (object !== undefined)\<close>. The first argument bounds the depth
  of \<open>find_subordinate_nodes\<close>; the result is \<open>None\<close> when that recursion does not return
  within the bound. The method is \<open>async\<close> and awaits the result of
  \<open>find_subordinate_nodes\<close>, which is not a promise; the model runs the method in one piece.
\<close>

definition hoverObject_emit ::
  "domEvent \<Rightarrow> point \<Rightarrow> object \<Rightarrow> bool \<Rightarrow> handler \<Rightarrow> bool \<times> handler" where
  "hoverObject_emit event pointer object hoverChanged h =
     (let hoveredEdgesCount = length (hoverObj_edges h);
          hoveredNodesCount = length (hoverObj_nodes h);
          newOnlyHoveredEdge =
            ((case object of Edge ob \<Rightarrow> True | Node ob \<Rightarrow> False)
             \<and> hoveredEdgesCount = 0 \<and> hoveredNodesCount = 0);
          newOnlyHoveredNode =
            ((case object of Node ob \<Rightarrow> True | Edge ob \<Rightarrow> False)
             \<and> hoveredEdgesCount = 0 \<and> hoveredNodesCount = 0)
      in if hoverChanged \<or> newOnlyHoveredEdge \<or> newOnlyHoveredNode
         then (case object of
                 Edge ob \<Rightarrow> emitHoverEvent event pointer object h
               | Node ob \<Rightarrow>
                   if \<not> node_isLabelNode (nodeObjects h ob)
                   then emitHoverEvent event pointer object h
                   else (hoverChanged, h))
         else (hoverChanged, h))"

definition hoverObject_connected :: "object \<Rightarrow> handler \<Rightarrow> (error + unit) \<times> handler" where
  "hoverObject_connected object h =
     (case object of
        Node ob \<Rightarrow> if opt_hoverConnectedEdges h then hoverConnectedEdges ob h else (Inr (), h)
      | Edge ob \<Rightarrow> (Inr (), h))"

definition hoverObject_subordinates ::
  "nat \<Rightarrow> domEvent \<Rightarrow> point \<Rightarrow> object \<Rightarrow> bool \<Rightarrow> handler \<Rightarrow> (bool \<times> handler) option" where
  "hoverObject_subordinates depth event pointer object hoverChanged h =
     (if ((case object of Node ob \<Rightarrow> True | Edge ob \<Rightarrow> False)
          \<and> (window_isUserDragging h = None \<or> window_isUserDragging h = Some False))
         \<or> (window_wasUserDragging h = Some True \<and> window_isUserDragging h = Some False)
      then (let options_id = (case object of
                                Node ob \<Rightarrow> node_options_id (nodeObjects h ob)
                              | Edge ob \<Rightarrow> edge_options_id (edgeObjects h ob))
            in case find_subordinate_nodes depth h (Some options_id) [] of
                 None \<Rightarrow> None
               | Some found \<Rightarrow>
                   (let h1 = hoverSubordinates_loop event pointer found h;
                        subordinate_nodes = found @ [Some options_id];
                        h2 = h1\<lparr>lastHoveredNodes := subordinate_nodes\<rparr>
                    in Some (True, emit (HoveredNodes subordinate_nodes) h2)))
      else Some (hoverChanged, h))"

definition hoverObject_hit ::
  "nat \<Rightarrow> domEvent \<Rightarrow> point \<Rightarrow> object \<Rightarrow> bool \<Rightarrow> handler \<Rightarrow> ((error + bool) \<times> handler) option" where
  "hoverObject_hit depth event pointer object hoverChanged0 h0 =
     (case hoverObject_emit event pointer object hoverChanged0 h0 of
        (hoverChanged1, h1) \<Rightarrow>
          (case hoverObject_connected object h1 of
             (Inl e, h2) \<Rightarrow> Some (Inl e, h2)
           | (Inr u, h2) \<Rightarrow>
               (case hoverObject_subordinates depth event pointer object hoverChanged1 h2 of
                  None \<Rightarrow> None
                | Some (hoverChanged2, h3) \<Rightarrow> Some (Inr hoverChanged2, h3))))"

definition hoverObject_blur ::
  "domEvent \<Rightarrow> point \<Rightarrow> object option \<Rightarrow> handler \<Rightarrow> bool \<times> handler" where
  "hoverObject_blur event pointer object h0 =
     (let h1 = (if object = None \<and> length (lastHoveredNodes h0) > 0
                then (emit (HoveredNodes []) h0)\<lparr>lastHoveredNodes := []\<rparr>
                else h0)
      in case blurNodes_loop event pointer object (map fst (hoverObj_nodes h1)) False h1 of
           (hoverChanged2, h2) \<Rightarrow>
             blurEdges_loop event pointer object (map fst (hoverObj_edges h2)) hoverChanged2 h2)"

definition hoverObject_rest ::
  "nat \<Rightarrow> domEvent \<Rightarrow> point \<Rightarrow> object option \<Rightarrow> handler \<Rightarrow> ((error + unit) \<times> handler) option" where
  "hoverObject_rest depth event pointer object h0 =
     (case hoverObject_blur event pointer object h0 of
        (hoverChanged3, h3) \<Rightarrow>
          (case (case object of
                   None \<Rightarrow> Some (Inr hoverChanged3, h3)
                 | Some obj \<Rightarrow> hoverObject_hit depth event pointer obj hoverChanged3 h3) of
             None \<Rightarrow> None
           | Some (Inl e, h4) \<Rightarrow> Some (Inl e, h4)
           | Some (Inr hoverChanged, h4) \<Rightarrow>
               (let h5 = (if hoverChanged then emit RequestRedraw h4 else h4)
                in Some (Inr (), h5\<lparr>window_wasUserDragging := window_isUserDragging h5\<rparr>))))"

definition hoverObject ::
  "nat \<Rightarrow> domEvent \<Rightarrow> point \<Rightarrow> handler \<Rightarrow> ((error + unit) \<times> handler) option" where
  "hoverObject depth event pointer h =
     (case getNodeAt pointer h of
        (Inl e, h1) \<Rightarrow> Some (Inl e, h1)
      | (Inr (Some r), h1) \<Rightarrow> hoverObject_rest depth event pointer (Some (Node r)) h1
      | (Inr None, h1) \<Rightarrow>
          (case getEdgeAt pointer h1 of
             (Inl e, h2) \<Rightarrow> Some (Inl e, h2)
           | (Inr e, h2) \<Rightarrow> hoverObject_rest depth event pointer (map_option Edge e) h2))"

subsection \<open>Notions used in the statements about the handler\<close>

text \<open>The committed selection: the committed node set and the committed edge set.\<close>

definition committedSelection :: "handler \<Rightarrow> ref list \<times> selectable list" where
  "committedSelection h =
     (committed (acc_nodes (selectionAccumulator h)), committed (acc_edges (selectionAccumulator h)))"

text \<open>
  A handler without nodes and edges, with the default options, an identity coordinate
  transform and straight edges, from which the concrete networks below are built.
\<close>

definition default_node :: node where
  "default_node =
     \<lparr>node_id = '''', node_options_id = '''', node_x = 0, node_y = 0, node_level = 0,
      node_hover = False, node_isLabelNode = False, node_edges = [],
      node_isOverlappingWith = (\<lambda>object. False), node_getItemsOnPoint = (\<lambda>p. [])\<rparr>"

definition default_edge :: edge where
  "default_edge =
     \<lparr>edge_id = '''', edge_options_id = '''', edge_fromId = '''', edge_toId = '''',
      edge_eventualId = None, edge_from = None, edge_to = None, edge_connected = False,
      edge_hover = False, edge_getDistanceToEdge = getDistanceToLine,
      edge_getItemsOnPoint = (\<lambda>p. [])\<rparr>"

definition empty_handler :: handler where
  "empty_handler =
     \<lparr>nodeObjects = (\<lambda>r. default_node), edgeObjects = (\<lambda>r. default_edge),
      body_nodes = [], body_nodeIndices = [], body_edges = [], body_edgeIndices = [],
      canvas_DOMtoCanvas = (\<lambda>p. p),
      selectionAccumulator =
        \<lparr>acc_nodes = \<lparr>committed = [], pending = []\<rparr>,
         acc_edges = \<lparr>committed = [], pending = []\<rparr>\<rparr>,
      hoverObj_nodes = [], hoverObj_edges = [],
      opt_multiselect = False, opt_selectable = True, opt_selectConnectedEdges = True,
      opt_hoverConnectedEdges = True,
      lastHoveredNodes = [], window_isUserDragging = None, window_wasUserDragging = None,
      trace = []\<rparr>"

text \<open>A network of one node \<open>a\<close>, which is the committed selection.\<close>

definition selected_a :: handler where
  "selected_a =
     empty_handler
       \<lparr>nodeObjects := (\<lambda>r. default_node)(0 := default_node\<lparr>node_id := ''a'', node_options_id := ''a''\<rparr>),
        body_nodes := [(''a'', 0)], body_nodeIndices := [''a''],
        selectionAccumulator :=
          \<lparr>acc_nodes = \<lparr>committed = [0], pending = []\<rparr>,
           acc_edges = \<lparr>committed = [], pending = []\<rparr>\<rparr>\<rparr>"

text \<open>The ids supplied under a property of the argument of \<open>setSelection\<close>.\<close>

definition supplied :: "id list option \<Rightarrow> id list" where
  "supplied ids = (case ids of None \<Rightarrow> [] | Some is \<Rightarrow> is)"

text \<open>
  The event that \<open>generateClickEvent\<close> sends in state \<open>h\<close> for an event type other than
  \<open>click\<close>: the pointer, the DOM event, the ids of the current selection and the previous
  selection handed in.
\<close>

definition click_event ::
  "string \<Rightarrow> domEvent \<Rightarrow> point \<Rightarrow> (ref list \<times> selectable list) option \<Rightarrow> handler
     \<Rightarrow> emission" where
  "click_event name event pointer previousSelection h =
     ClickEvent name
       \<lparr>bp_pointer = Some (\<lparr>px = px pointer, py = py pointer\<rparr>, canvas_DOMtoCanvas h pointer),
        bp_event = event,
        cp_nodes = getSelectedNodeIds h, cp_edges = getSelectedEdgeIds h,
        cp_previousSelection = previousSelection,
        cp_items = None,
        cp_controlEdge = controlEdge event\<rparr>"

text \<open>
  The distances that \<open>getEdgeAt\<close> computes: for every connected edge, in the order of
  \<open>body.edgeIndices\<close>, its id with its distance to the canvas position.
\<close>

definition edge_distance :: "handler \<Rightarrow> point \<Rightarrow> id \<Rightarrow> (id \<times> real) option" where
  "edge_distance h canvasPos edgeId =
     (case map_of (body_edges h) edgeId of
        None \<Rightarrow> None
      | Some r \<Rightarrow>
          (let edge = edgeObjects h r
           in if edge_connected edge
              then (case (edge_from edge, edge_to edge) of
                      (Some f, Some t) \<Rightarrow>
                        Some (edgeId,
                              edge_getDistanceToEdge edge
                                (node_x (nodeObjects h f)) (node_y (nodeObjects h f))
                                (node_x (nodeObjects h t)) (node_y (nodeObjects h t))
                                (px canvasPos) (py canvasPos))
                    | _ \<Rightarrow> None)
              else None))"

definition edge_distances :: "handler \<Rightarrow> point \<Rightarrow> (id \<times> real) list" where
  "edge_distances h canvasPos = List.map_filter (edge_distance h canvasPos) (body_edgeIndices h)"

text \<open>
  \<open>edgeAt\<close> as the specification words it: the minimum of the distances; a hit only if
  that minimum is below the tolerance of 10; among the edges at the minimum the first in
  iteration order.
\<close>

definition edgeAt_spec :: "handler \<Rightarrow> point \<Rightarrow> id option" where
  "edgeAt_spec h canvasPos =
     (let ds = edge_distances h canvasPos
      in if ds = [] then None
         else if Min (set (map snd ds)) < 10
              then map_option fst (find (\<lambda>p. snd p = Min (set (map snd ds))) ds)
              else None)"

text \<open>
  Every id of \<open>body.edgeIndices\<close> is an edge of \<open>body.edges\<close>, and a connected edge has its
  two nodes.
\<close>

definition edges_well_formed :: "handler \<Rightarrow> bool" where
  "edges_well_formed h =
     list_all (\<lambda>edgeId.
        case map_of (body_edges h) edgeId of
          None \<Rightarrow> False
        | Some r \<Rightarrow> \<not> edge_connected (edgeObjects h r)
                    \<or> (edge_from (edgeObjects h r) \<noteq> None \<and> edge_to (edgeObjects h r) \<noteq> None))
       (body_edgeIndices h)"

text \<open>
  Modelled from the spec: the distance function of a straight edge (\<open>getDistanceToEdge\<close> of
  its edge type) is not among the sources; for a straight edge ``the path is the line
  segment from\<rightarrow>to'', so it is the distance from the point to that segment. Edge \<open>r\<close> is
  a connected straight edge between the nodes \<open>f\<close> and \<open>t\<close>, which lie at different
  positions.
\<close>

definition straight_edge_between :: "handler \<Rightarrow> ref \<Rightarrow> ref \<Rightarrow> ref \<Rightarrow> bool" where
  "straight_edge_between h r f t =
     (edge_connected (edgeObjects h r)
      \<and> edge_from (edgeObjects h r) = Some f \<and> edge_to (edgeObjects h r) = Some t
      \<and> edge_getDistanceToEdge (edgeObjects h r) = getDistanceToLine
      \<and> (node_x (nodeObjects h f), node_y (nodeObjects h f))
          \<noteq> (node_x (nodeObjects h t), node_y (nodeObjects h t)))"

text \<open>
  The point \<open>d\<close> units away from the midpoint between two nodes, at a right angle to the
  line through them.
\<close>

definition beside_midpoint :: "node \<Rightarrow> node \<Rightarrow> real \<Rightarrow> point" where
  "beside_midpoint f t d =
     (let len = sqrt ((node_x t - node_x f)\<^sup>2 + (node_y t - node_y f)\<^sup>2)
      in \<lparr>px = (node_x f + node_x t) / 2 - d * (node_y t - node_y f) / len,
          py = (node_y f + node_y t) / 2 + d * (node_x t - node_x f) / len\<rparr>)"

text \<open>A network of two nodes at \<open>(0, 0)\<close> and \<open>(2, 0)\<close> with a straight edge between them.\<close>

definition one_edge :: handler where
  "one_edge =
     empty_handler
       \<lparr>nodeObjects := (\<lambda>r. default_node)
          (0 := default_node\<lparr>node_id := ''a'', node_options_id := ''a'', node_edges := [0]\<rparr>,
           1 := default_node\<lparr>node_id := ''b'', node_options_id := ''b'', node_x := 2,
                             node_edges := [0]\<rparr>),
        edgeObjects := (\<lambda>r. default_edge)
          (0 := default_edge\<lparr>edge_id := ''ab'', edge_options_id := ''ab'', edge_fromId := ''a'',
                             edge_toId := ''b'', edge_from := Some 0, edge_to := Some 1,
                             edge_connected := True\<rparr>),
        body_nodes := [(''a'', 0), (''b'', 1)], body_nodeIndices := [''a'', ''b''],
        body_edges := [(''ab'', 0)], body_edgeIndices := [''ab'']\<rparr>"

text \<open>
  The loop of \<open>getEdgeAt\<close> on the list of distances: the running minimum \<open>m\<close> and the best
  edge \<open>b\<close> so far.
\<close>

fun pick :: "real \<Rightarrow> id option \<Rightarrow> (id \<times> real) list \<Rightarrow> id option" where
  "pick m b [] = b"
| "pick m b (p # ps) = (if snd p < m then pick (snd p) (Some (fst p)) ps else pick m b ps)"


text \<open>The lists sent with the \<open>hoveredNodes\<close> events of a trace, in order.\<close>

fun hoveredNodes_events :: "action list \<Rightarrow> id option list list" where
  "hoveredNodes_events [] = []"
| "hoveredNodes_events (Emitted (HoveredNodes l) # as) = l # hoveredNodes_events as"
| "hoveredNodes_events (a # as) = hoveredNodes_events as"

text \<open>
  What a step of \<open>hoverObject\<close> leaves alone when all it does is to flag objects, to edit
  the hover maps and to emit events other than \<open>hoveredNodes\<close>: the graph that
  \<open>find_subordinate_nodes\<close> walks, the drag flags, the options and the \<open>hoveredNodes\<close>
  events sent so far.
\<close>

definition quiet_step :: "handler \<Rightarrow> handler \<Rightarrow> bool" where
  "quiet_step h h' =
     (body_nodes h' = body_nodes h \<and> body_edges h' = body_edges h
      \<and> (\<forall>r. node_level (nodeObjects h' r) = node_level (nodeObjects h r)
             \<and> node_id (nodeObjects h' r) = node_id (nodeObjects h r)
             \<and> node_options_id (nodeObjects h' r) = node_options_id (nodeObjects h r)
             \<and> node_isLabelNode (nodeObjects h' r) = node_isLabelNode (nodeObjects h r)
             \<and> node_edges (nodeObjects h' r) = node_edges (nodeObjects h r))
      \<and> (\<forall>r. edge_toId (edgeObjects h' r) = edge_toId (edgeObjects h r)
             \<and> edge_id (edgeObjects h' r) = edge_id (edgeObjects h r)
             \<and> edge_fromId (edgeObjects h' r) = edge_fromId (edgeObjects h r)
             \<and> edge_eventualId (edgeObjects h' r) = edge_eventualId (edgeObjects h r))
      \<and> window_isUserDragging h' = window_isUserDragging h
      \<and> window_wasUserDragging h' = window_wasUserDragging h
      \<and> opt_hoverConnectedEdges h' = opt_hoverConnectedEdges h
      \<and> canvas_DOMtoCanvas h' = canvas_DOMtoCanvas h
      \<and> lastHoveredNodes h' = lastHoveredNodes h
      \<and> hoveredNodes_events (trace h') = hoveredNodes_events (trace h))"

text \<open>
  A network of the level-0 nodes \<open>a\<close> and \<open>b\<close> and the level-2 node \<open>m\<close> at \<open>(1, 5)\<close>, with
  one edge from \<open>a\<close> to \<open>m\<close> and on to \<open>b\<close>.
\<close>

definition chain_network :: handler where
  "chain_network =
     empty_handler
       \<lparr>nodeObjects := (\<lambda>r. default_node)
          (0 := default_node\<lparr>node_id := ''a'', node_options_id := ''a'', node_edges := [0]\<rparr>,
           1 := default_node\<lparr>node_id := ''b'', node_options_id := ''b'', node_x := 2,
                             node_edges := [0]\<rparr>,
           2 := default_node\<lparr>node_id := ''m'', node_options_id := ''m'', node_x := 1, node_y := 5,
                             node_level := 2, node_edges := [0],
                             node_isOverlappingWith :=
                               (\<lambda>object. r_left object \<le> 1 \<and> 1 \<le> r_right object
                                          \<and> r_bottom object \<le> 5 \<and> 5 \<le> r_top object)\<rparr>),
        edgeObjects := (\<lambda>r. default_edge)
          (0 := default_edge\<lparr>edge_id := ''amb'', edge_options_id := ''amb'', edge_fromId := ''a'',
                             edge_toId := ''m'', edge_eventualId := Some ''b'',
                             edge_from := Some 0, edge_to := Some 2, edge_connected := True\<rparr>),
        body_nodes := [(''a'', 0), (''b'', 1), (''m'', 2)],
        body_nodeIndices := [''a'', ''b'', ''m''],
        body_edges := [(''amb'', 0)], body_edgeIndices := [''amb'']\<rparr>"

text \<open>
  A network of the level-0 node \<open>a\<close> and the level-2 node \<open>m\<close> at \<open>(1, 5)\<close>, with one edge
  from \<open>a\<close> to \<open>m\<close> that has no eventual node.
\<close>

definition direct_network :: handler where
  "direct_network =
     empty_handler
       \<lparr>nodeObjects := (\<lambda>r. default_node)
          (0 := default_node\<lparr>node_id := ''a'', node_options_id := ''a'', node_edges := [0]\<rparr>,
           1 := default_node\<lparr>node_id := ''m'', node_options_id := ''m'', node_x := 1, node_y := 5,
                             node_level := 2, node_edges := [0],
                             node_isOverlappingWith :=
                               (\<lambda>object. r_left object \<le> 1 \<and> 1 \<le> r_right object
                                          \<and> r_bottom object \<le> 5 \<and> 5 \<le> r_top object)\<rparr>),
        edgeObjects := (\<lambda>r. default_edge)
          (0 := default_edge\<lparr>edge_id := ''am'', edge_options_id := ''am'', edge_fromId := ''a'',
                             edge_toId := ''m'', edge_from := Some 0, edge_to := Some 1,
                             edge_connected := True\<rparr>),
        body_nodes := [(''a'', 0), (''m'', 1)],
        body_nodeIndices := [''a'', ''m''],
        body_edges := [(''am'', 0)], body_edgeIndices := [''am'']\<rparr>"

text \<open>
  A network of the level-0 nodes \<open>a\<close>, \<open>b\<close> and \<open>c\<close>, the level-1 node \<open>p\<close> and the level-2
  node \<open>m\<close>, with an edge from \<open>a\<close> by \<open>p\<close> on to \<open>b\<close> and an edge from \<open>p\<close> by \<open>m\<close> on to \<open>c\<close>.
\<close>

definition two_edges :: handler where
  "two_edges =
     empty_handler
       \<lparr>nodeObjects := (\<lambda>r. default_node)
          (0 := default_node\<lparr>node_id := ''a'', node_options_id := ''a'', node_edges := [0]\<rparr>,
           1 := default_node\<lparr>node_id := ''b'', node_options_id := ''b'', node_edges := [0]\<rparr>,
           2 := default_node\<lparr>node_id := ''c'', node_options_id := ''c'', node_edges := [1]\<rparr>,
           3 := default_node\<lparr>node_id := ''p'', node_options_id := ''p'', node_level := 1,
                             node_edges := [0, 1]\<rparr>,
           4 := default_node\<lparr>node_id := ''m'', node_options_id := ''m'', node_level := 2,
                             node_edges := [1]\<rparr>),
        edgeObjects := (\<lambda>r. default_edge)
          (0 := default_edge\<lparr>edge_id := ''apb'', edge_options_id := ''apb'', edge_fromId := ''a'',
                             edge_toId := ''p'', edge_eventualId := Some ''b'',
                             edge_from := Some 0, edge_to := Some 3, edge_connected := True\<rparr>,
           1 := default_edge\<lparr>edge_id := ''pmc'', edge_options_id := ''pmc'', edge_fromId := ''p'',
                             edge_toId := ''m'', edge_eventualId := Some ''c'',
                             edge_from := Some 3, edge_to := Some 4, edge_connected := True\<rparr>),
        body_nodes := [(''a'', 0), (''b'', 1), (''c'', 2), (''p'', 3), (''m'', 4)],
        body_nodeIndices := [''a'', ''b'', ''c'', ''p'', ''m''],
        body_edges := [(''apb'', 0), (''pmc'', 1)], body_edgeIndices := [''apb'', ''pmc'']\<rparr>"

declare hoverAllNodes_loop.simps [simp del]

declare string_of_nat.simps [simp del]


declare getDistanceToBezierEdge_loop.simps [simp del]

section \<open>Properties of the control points\<close>

lemma chord_sum_zero:
  "sqrt ((x1 - x0)\<^sup>2 + (y1 - y0)\<^sup>2) + sqrt ((x2 - x1)\<^sup>2 + (y2 - y1)\<^sup>2) = 0
     \<longleftrightarrow> x0 = x1 \<and> y0 = y1 \<and> x1 = x2 \<and> y1 = y2"
proof -
  have nn: "0 \<le> sqrt ((x1 - x0)\<^sup>2 + (y1 - y0)\<^sup>2)" "0 \<le> sqrt ((x2 - x1)\<^sup>2 + (y2 - y1)\<^sup>2)"
    by simp_all
  have "sqrt ((x1 - x0)\<^sup>2 + (y1 - y0)\<^sup>2) + sqrt ((x2 - x1)\<^sup>2 + (y2 - y1)\<^sup>2) = 0
      \<longleftrightarrow> sqrt ((x1 - x0)\<^sup>2 + (y1 - y0)\<^sup>2) = 0 \<and> sqrt ((x2 - x1)\<^sup>2 + (y2 - y1)\<^sup>2) = 0"
    using nn by linarith
  also have "\<dots> \<longleftrightarrow> x0 = x1 \<and> y0 = y1 \<and> x1 = x2 \<and> y1 = y2"
    by (auto simp: sum_power2_eq_zero_iff)
  finally show ?thesis .
qed

text \<open>
  C5. With \<open>d01 = |to - from|\<close> and \<open>d12 = |eventual - to|\<close>, \<open>getControlPoints\<close> returns
  control point 1 \<open>= to - fa (eventual - from)\<close> and control point 2
  \<open>= to + fb (eventual - from)\<close> with \<open>fa = t d01 / (d01 + d12)\<close> and
  \<open>fb = t d12 / (d01 + d12)\<close>; the quotients exist unless the three points coincide. For
  three colinear points with equal spacing and tension 0.5, both control points lie on the
  line through the three points.
\<close>

theorem getControlPoints_formula:
  "(let d01 = sqrt ((tx - fx)\<^sup>2 + (ty - fy)\<^sup>2);
        d12 = sqrt ((ex - tx)\<^sup>2 + (ey - ty)\<^sup>2)
    in getControlPoints fx fy tx ty ex ey t =
         (if d01 + d12 = 0 then None
          else Some (tx - t * d01 / (d01 + d12) * (ex - fx),
                     ty - t * d01 / (d01 + d12) * (ey - fy),
                     tx + t * d12 / (d01 + d12) * (ex - fx),
                     ty + t * d12 / (d01 + d12) * (ey - fy))))
   \<and> (tx - fx = ex - tx \<and> ty - fy = ey - ty \<and> (fx, fy) \<noteq> (tx, ty) \<longrightarrow>
        (\<exists>p1x p1y p2x p2y.
           getControlPoints fx fy tx ty ex ey 0.5 = Some (p1x, p1y, p2x, p2y)
           \<and> colinear (fx, fy) (ex, ey) (p1x, p1y)
           \<and> colinear (fx, fy) (ex, ey) (p2x, p2y)))"
proof (intro conjI impI)
  show "let d01 = sqrt ((tx - fx)\<^sup>2 + (ty - fy)\<^sup>2);
            d12 = sqrt ((ex - tx)\<^sup>2 + (ey - ty)\<^sup>2)
        in getControlPoints fx fy tx ty ex ey t =
             (if d01 + d12 = 0 then None
              else Some (tx - t * d01 / (d01 + d12) * (ex - fx),
                         ty - t * d01 / (d01 + d12) * (ey - fy),
                         tx + t * d12 / (d01 + d12) * (ex - fx),
                         ty + t * d12 / (d01 + d12) * (ey - fy)))"
    unfolding getControlPoints_def js_div_def Let_def by simp
next
  assume "tx - fx = ex - tx \<and> ty - fy = ey - ty \<and> (fx, fy) \<noteq> (tx, ty)"
  then have dx: "tx - fx = ex - tx" and dy: "ty - fy = ey - ty" and ne: "(fx, fy) \<noteq> (tx, ty)"
    by blast+
  define d where "d = sqrt ((tx - fx)\<^sup>2 + (ty - fy)\<^sup>2)"
  have d2: "sqrt ((ex - tx)\<^sup>2 + (ey - ty)\<^sup>2) = d"
    unfolding d_def by (simp only: dx [symmetric] dy [symmetric])
  have "d + d \<noteq> 0"
    using chord_sum_zero [of tx fx ty fy ex ey] ne d2 d_def by auto
  then have dpos: "d \<noteq> 0" by simp
  have q: "0.5 * d / (d + d) = 1 / 4"
    using dpos by (simp add: field_simps)
  have g: "getControlPoints fx fy tx ty ex ey 0.5 =
             Some (tx - 1 / 4 * (ex - fx), ty - 1 / 4 * (ey - fy),
                   tx + 1 / 4 * (ex - fx), ty + 1 / 4 * (ey - fy))"
    unfolding getControlPoints_def js_div_def Let_def d2 d_def [symmetric]
    using \<open>d + d \<noteq> 0\<close> q by simp
  have ex: "ex = 2 * tx - fx" and ey: "ey = 2 * ty - fy"
    using dx dy by linarith+
  have c1: "colinear (fx, fy) (ex, ey) (tx - 1 / 4 * (ex - fx), ty - 1 / 4 * (ey - fy))"
    unfolding colinear_def ex ey by (simp add: algebra_simps)
  have c2: "colinear (fx, fy) (ex, ey) (tx + 1 / 4 * (ex - fx), ty + 1 / 4 * (ey - fy))"
    unfolding colinear_def ex ey by (simp add: algebra_simps)
  from g c1 c2 show "\<exists>p1x p1y p2x p2y.
            getControlPoints fx fy tx ty ex ey 0.5 = Some (p1x, p1y, p2x, p2y)
            \<and> colinear (fx, fy) (ex, ey) (p1x, p1y)
            \<and> colinear (fx, fy) (ex, ey) (p2x, p2y)"
    by blast
qed

theorem getControlPoints_formula_witness:
  "(1 - 0 = 2 - (1::real) \<and> 3 - 0 = 6 - (3::real) \<and> (0::real, 0::real) \<noteq> (1, 3))
   \<and> (\<exists>p1x p1y p2x p2y.
        getControlPoints 0 0 1 3 2 6 0.5 = Some (p1x, p1y, p2x, p2y)
        \<and> colinear (0, 0) (2, 6) (p1x, p1y)
        \<and> colinear (0, 0) (2, 6) (p2x, p2y))"
proof -
  have h: "1 - 0 = 2 - (1::real) \<and> 3 - 0 = 6 - (3::real) \<and> (0::real, 0::real) \<noteq> (1, 3)"
    by simp
  from getControlPoints_formula [where tx = 1 and fx = 0 and ty = 3 and fy = 0 and ex = 2 and ey = 6]
  have "1 - 0 = 2 - (1::real) \<and> 3 - 0 = 6 - (3::real) \<and> (0::real, 0::real) \<noteq> (1, 3) \<longrightarrow>
        (\<exists>p1x p1y p2x p2y.
           getControlPoints 0 0 1 3 2 6 0.5 = Some (p1x, p1y, p2x, p2y)
           \<and> colinear (0, 0) (2, 6) (p1x, p1y)
           \<and> colinear (0, 0) (2, 6) (p2x, p2y))"
    by (rule conjunct2)
  with h show ?thesis by blast
qed

section \<open>The border of an ellipse\<close>




section \<open>The border position on a straight edge\<close>

















section \<open>The distance to a curved edge\<close>

lemma getDistanceToLine_axis:
  assumes "a < b"
  shows "getDistanceToLine a 0 b 0 c 0 = (if c \<le> a then a - c else if b \<le> c then c - b else 0)"
proof -
  define q where "q = (c - a) / (b - a)"
  have len: "(b - a) * (b - a) \<noteq> 0" using assms by simp
  have u: "(c - a) * (b - a) / ((b - a) * (b - a)) = q"
    unfolding q_def by (rule nonzero_mult_divide_mult_cancel_right) (use assms in simp)
  have g: "getDistanceToLine a 0 b 0 c 0 = \<bar>a + max 0 (min 1 q) * (b - a) - c\<bar>"
    using len by (simp add: getDistanceToLine_def Let_def u)
  have qa: "q * (b - a) = c - a" using assms by (simp add: q_def)
  show ?thesis
  proof (cases "c \<le> a")
    case True
    then have "q \<le> 0" using assms by (simp add: q_def divide_nonpos_pos)
    then have "max 0 (min 1 q) = 0" by simp
    then show ?thesis using True by (simp add: g)
  next
    case False
    show ?thesis
    proof (cases "b \<le> c")
      case True
      then have "1 \<le> q" using assms by (simp add: q_def)
      then have "max 0 (min 1 q) = 1" by simp
      then show ?thesis using True False assms by (simp add: g)
    next
      case F2: False
      then have "0 \<le> q" "q \<le> 1"
        using False assms by (simp_all add: q_def)
      then have "max 0 (min 1 q) = q" by simp
      then show ?thesis using F2 False by (simp add: g qa)
    qed
  qed
qed

text \<open>
  C4. \<open>distanceToEdge\<close> of an edge with one via point is the least distance from the query
  point to a segment between consecutive points of the path sampled at \<open>t = 0.1, \<dots>, 0.9\<close>
  with both end points. On the edge from \<open>(0, 0)\<close> to \<open>(10, 0)\<close> with via point \<open>(5, 0)\<close>
  and the query point \<open>(10, 0)\<close>, the to end of the edge, that least distance is 0, and
  \<open>_getDistanceToBezierEdge\<close> returns 1: its loop ends at \<open>t = 0.9\<close> and leaves out the
  segment from there to \<open>t = 1\<close>.
\<close>

theorem getDistanceToBezierEdge_omits_last_segment:
  "getDistanceToBezierEdge 0 0 10 0 10 0 \<lparr>px = 5, py = 0\<rparr> = 1
   \<and> distanceToEdge_spec 0 0 10 0 10 0 \<lparr>px = 5, py = 0\<rparr> = 0"
proof
  show "getDistanceToBezierEdge 0 0 10 0 10 0 \<lparr>px = 5, py = 0\<rparr> = 1"
    unfolding getDistanceToBezierEdge_def
    by (simp add: getDistanceToBezierEdge_loop.simps getDistanceToLine_axis Let_def power2_eq_square)
  show "distanceToEdge_spec 0 0 10 0 10 0 \<lparr>px = 5, py = 0\<rparr> = 0"
    unfolding distanceToEdge_spec_def sampled_points_def
    by (simp add: getDistanceToLine_axis Let_def quadratic_point_def upt_rec power2_eq_square)
qed

section \<open>Errors of \<open>setSelection\<close>\<close>

lemma selectObject_frame:
  "body_nodes (snd (selectObject obj hl h)) = body_nodes h"
  "body_edges (snd (selectObject obj hl h)) = body_edges h"
  "committedSelection (snd (selectObject obj hl h)) = committedSelection h"
  by (auto simp: selectObject_def Let_def emit_def called_def committedSelection_def addNodes_def
      addEdges_def stage_def split: option.splits object.splits selectable.splits)

lemma unselectAll_frame:
  "body_nodes (unselectAll h) = body_nodes h"
  "body_edges (unselectAll h) = body_edges h"
  "committedSelection (unselectAll h) = committedSelection h"
  by (simp_all add: unselectAll_def Let_def called_def committedSelection_def clear_def stage_def)

lemma setSelection_nodes_frame:
  "body_nodes (snd (setSelection_nodes ids opts h)) = body_nodes h
   \<and> body_edges (snd (setSelection_nodes ids opts h)) = body_edges h
   \<and> committedSelection (snd (setSelection_nodes ids opts h)) = committedSelection h"
  by (induction ids opts h rule: setSelection_nodes.induct)
     (auto simp: selectObject_frame split: option.splits)

lemma setSelection_edges_frame:
  "body_nodes (snd (setSelection_edges ids h)) = body_nodes h
   \<and> body_edges (snd (setSelection_edges ids h)) = body_edges h
   \<and> committedSelection (snd (setSelection_edges ids h)) = committedSelection h"
  by (induction ids h rule: setSelection_edges.induct)
     (auto simp: selectObject_frame split: option.splits)

lemma setSelection_nodes_fst:
  "fst (setSelection_nodes ids opts h) =
     (case find (\<lambda>i. get_property (body_nodes h) i = Undefined) ids of
        None \<Rightarrow> Inr ()
      | Some i \<Rightarrow> Inl (RangeError (''Node with id \"'' @ i @ ''\" not found'')))"
proof (induction ids opts h rule: setSelection_nodes.induct)
  case (1 options h)
  show ?case by simp
next
  case (2 i "is" options h)
  show ?case
  proof (cases "map_of (body_nodes h) i")
    case None
    show ?thesis
    proof (cases "i \<in> set object_prototype_keys")
      case True
      with None 2 show ?thesis by (simp add: get_property_def selectObject_frame)
    next
      case False
      with None show ?thesis by (simp add: get_property_def)
    qed
  next
    case (Some r)
    with 2 show ?thesis by (simp add: get_property_def selectObject_frame)
  qed
qed

lemma setSelection_edges_fst:
  "fst (setSelection_edges ids h) =
     (case find (\<lambda>i. get_property (body_edges h) i = Undefined) ids of
        None \<Rightarrow> Inr ()
      | Some i \<Rightarrow> Inl (RangeError (''Edge with id \"'' @ i @ ''\" not found'')))"
proof (induction ids h rule: setSelection_edges.induct)
  case (1 h)
  show ?case by simp
next
  case (2 i "is" h)
  show ?case
  proof (cases "map_of (body_edges h) i")
    case None
    show ?thesis
    proof (cases "i \<in> set object_prototype_keys")
      case True
      with None 2 show ?thesis by (simp add: get_property_def selectObject_frame)
    next
      case False
      with None show ?thesis by (simp add: get_property_def)
    qed
  next
    case (Some r)
    with 2 show ?thesis by (simp add: get_property_def selectObject_frame)
  qed
qed

lemma find_Some_member: "find P xs = Some x \<Longrightarrow> \<exists>i\<in>set xs. P i"
  by (metis find_None_iff option.distinct(1))

lemma setSelection_nodes_result:
  "(\<exists>i\<in>set ids. get_property (body_nodes h) i = Undefined)
     \<longleftrightarrow> (\<exists>msg. fst (setSelection_nodes ids opts h) = Inl (RangeError msg))"
  "(\<forall>i\<in>set ids. get_property (body_nodes h) i \<noteq> Undefined)
     \<longleftrightarrow> fst (setSelection_nodes ids opts h) = Inr ()"
  by (auto simp: setSelection_nodes_fst find_None_iff split: option.splits dest: find_Some_member)

lemma setSelection_edges_result:
  "(\<exists>i\<in>set ids. get_property (body_edges h) i = Undefined)
     \<longleftrightarrow> (\<exists>msg. fst (setSelection_edges ids h) = Inl (RangeError msg))"
  "(\<forall>i\<in>set ids. get_property (body_edges h) i \<noteq> Undefined)
     \<longleftrightarrow> fst (setSelection_edges ids h) = Inr ()"
  by (auto simp: setSelection_edges_fst find_None_iff split: option.splits dest: find_Some_member)

text \<open>
  What holds of the errors: \<open>setSelection\<close> throws the malformed-argument error (a
  \<open>TypeError\<close>), and changes nothing, when its argument is missing or has neither a \<open>nodes\<close>
  nor an \<open>edges\<close> property. When the argument is well formed and \<open>body.nodes[id]\<close> or
  \<open>body.edges[id]\<close> is \<open>undefined\<close> for one of the supplied ids, it throws the unknown-id
  error (a \<open>RangeError\<close>), and the committed node and edge sets after the throw are those
  before the call.
\<close>

lemma setSelection_errors:
  "((selection = None \<or> (\<exists>sel. selection = Some sel \<and> sel_nodes sel = None \<and> sel_edges sel = None))
      \<longrightarrow> setSelection selection options h
            = (Inl (TypeError ''Selection must be an object with nodes and/or edges properties''), h))
   \<and> (\<forall>sel. selection = Some sel \<and> (sel_nodes sel \<noteq> None \<or> sel_edges sel \<noteq> None)
          \<and> ((\<exists>i\<in>set (supplied (sel_nodes sel)). get_property (body_nodes h) i = Undefined)
             \<or> (\<exists>i\<in>set (supplied (sel_edges sel)). get_property (body_edges h) i = Undefined))
        \<longrightarrow> (\<exists>msg. fst (setSelection selection options h) = Inl (RangeError msg))
            \<and> committedSelection (snd (setSelection selection options h)) = committedSelection h)"
proof (rule conjI; intro allI impI)
  assume "selection = None \<or> (\<exists>sel. selection = Some sel \<and> sel_nodes sel = None \<and> sel_edges sel = None)"
  then show "setSelection selection options h
      = (Inl (TypeError ''Selection must be an object with nodes and/or edges properties''), h)"
    by (auto simp: setSelection_def)
next
  fix sel
  assume a: "selection = Some sel \<and> (sel_nodes sel \<noteq> None \<or> sel_edges sel \<noteq> None)
          \<and> ((\<exists>i\<in>set (supplied (sel_nodes sel)). get_property (body_nodes h) i = Undefined)
             \<or> (\<exists>i\<in>set (supplied (sel_edges sel)). get_property (body_edges h) i = Undefined))"
  define h1 where "h1 = (if so_unselectAll options = Some True \<or> so_unselectAll options = None
                         then unselectAll h else h)"
  have f1: "body_nodes h1 = body_nodes h" "body_edges h1 = body_edges h"
    "committedSelection h1 = committedSelection h"
    by (simp_all add: h1_def unselectAll_frame)
  define rn where "rn = (case sel_nodes sel of None \<Rightarrow> (Inr (), h1)
                          | Some ids \<Rightarrow> setSelection_nodes ids options h1)"
  have f2: "body_nodes (snd rn) = body_nodes h" "body_edges (snd rn) = body_edges h"
    "committedSelection (snd rn) = committedSelection h"
    using f1 by (auto simp: rn_def setSelection_nodes_frame split: option.splits)
  define re where "re = (case sel_edges sel of None \<Rightarrow> (Inr (), snd rn)
                          | Some ids \<Rightarrow> setSelection_edges ids (snd rn))"
  have f3: "committedSelection (snd re) = committedSelection h"
    using f2 by (auto simp: re_def setSelection_edges_frame split: option.splits)
  have unfold: "setSelection selection options h =
      bind_h rn (\<lambda>u h2. bind_h (case sel_edges sel of None \<Rightarrow> (Inr (), h2)
                                 | Some ids \<Rightarrow> setSelection_edges ids h2)
        (\<lambda>u h3. (let h4 = emit RequestRedraw h3
                  in (Inr (), h4\<lparr>selectionAccumulator := snd (commit (selectionAccumulator h4))\<rparr>))))"
  proof -
    from a have s: "selection = Some sel"
      and nb: "\<not> (sel_nodes sel = None \<and> sel_edges sel = None)" by auto
    show ?thesis
      unfolding rn_def h1_def setSelection_def Let_def s using nb by auto
  qed
  show "(\<exists>msg. fst (setSelection selection options h) = Inl (RangeError msg))
            \<and> committedSelection (snd (setSelection selection options h)) = committedSelection h"
  proof (cases "\<exists>i\<in>set (supplied (sel_nodes sel)). get_property (body_nodes h) i = Undefined")
    case True
    then obtain ids where ids: "sel_nodes sel = Some ids"
      by (cases "sel_nodes sel") (auto simp: supplied_def)
    with True have "\<exists>i\<in>set ids. get_property (body_nodes h1) i = Undefined"
      by (simp add: supplied_def f1)
    then obtain msg where "fst rn = Inl (RangeError msg)"
      using setSelection_nodes_result(1) [of ids h1 options] ids by (auto simp: rn_def)
    then have "rn = (Inl (RangeError msg), snd rn)" by (cases rn) simp
    then have "setSelection selection options h = (Inl (RangeError msg), snd rn)"
      unfolding unfold by (metis (no_types, lifting) bind_h_def old.prod.case old.sum.simps(5))
    then show ?thesis using f2 by simp
  next
    case False
    have nodes_ok: "fst rn = Inr ()"
    proof (cases "sel_nodes sel")
      case None
      then show ?thesis by (simp add: rn_def)
    next
      case (Some ids)
      with False have "\<forall>i\<in>set ids. get_property (body_nodes h1) i \<noteq> Undefined"
        by (simp add: supplied_def f1)
      then have "fst (setSelection_nodes ids options h1) = Inr ()"
        using setSelection_nodes_result(2) [of ids h1 options] by blast
      then show ?thesis using Some by (simp add: rn_def)
    qed
    then have rn: "rn = (Inr (), snd rn)" by (cases rn) simp
    from False a have "\<exists>i\<in>set (supplied (sel_edges sel)). get_property (body_edges h) i = Undefined"
      by blast
    then obtain ids where ids: "sel_edges sel = Some ids"
        and ex: "\<exists>i\<in>set ids. get_property (body_edges (snd rn)) i = Undefined"
      by (cases "sel_edges sel") (auto simp: supplied_def f2)
    then obtain msg where "fst re = Inl (RangeError msg)"
      using setSelection_edges_result(1) [of ids "snd rn"] by (auto simp: re_def)
    then have re: "re = (Inl (RangeError msg), snd re)" by (cases re) simp
    have "setSelection selection options h = (Inl (RangeError msg), snd re)"
      unfolding unfold by (subst rn, simp add: bind_h_def re_def [symmetric]) (subst re, simp)
    then show ?thesis using f3 by simp
  qed
qed

text \<open>
  C2. \<open>setSelection\<close> does not throw the unknown-id error for every supplied id that is
  absent from the graph. In the network whose only node is \<open>a\<close>, which is the committed
  selection, \<open>setSelection({nodes: ["constructor"]})\<close> finds under \<open>body.nodes["constructor"]\<close>
  the function that every plain object inherits, takes it for a node and returns without
  an error; the committed selection is then no longer \<open>a\<close>: its node set is empty and its
  edge set holds that function.
\<close>

theorem setSelection_inherited_id_not_rejected:
  "map_of (body_nodes selected_a) ''constructor'' = None
   \<and> committedSelection selected_a = ([0], [])
   \<and> fst (setSelection (Some \<lparr>sel_nodes = Some [''constructor''], sel_edges = None\<rparr>)
              \<lparr>so_unselectAll = None, so_highlightEdges = None\<rparr> selected_a)
       = Inr ()
   \<and> committedSelection
         (snd (setSelection (Some \<lparr>sel_nodes = Some [''constructor''], sel_edges = None\<rparr>)
                 \<lparr>so_unselectAll = None, so_highlightEdges = None\<rparr> selected_a))
       = ([], [Builtin ''constructor''])"
  by (simp add: setSelection_def bind_h_def unselectAll_def selectObject_def called_def emit_def
      Let_def selected_a_def empty_handler_def object_prototype_keys_def committedSelection_def
      commit_def commit_collection_def current_def clear_def addEdges_def stage_def getNodes_def)

section \<open>The events of a commit\<close>

lemma generateClickEvent_other:
  "name \<noteq> ''click'' \<Longrightarrow>
     generateClickEvent name event pointer old False h
       = (Inr (), emit (click_event name event pointer old h) h)"
  by (simp add: generateClickEvent_def click_event_def Let_def initBaseEvent_def getSelection_def)

lemma click_event_emit [simp]:
  "click_event name event pointer old (emit e h) = click_event name event pointer old h"
  by (auto simp: click_event_def emit_def getSelectedNodeIds_def getSelectedEdgeIds_def
      member_id_def split: selectable.splits object.splits)

lemma trace_emit [simp]: "trace (emit e h) = trace h @ [Emitted e]"
  by (simp add: emit_def)

text \<open>
  C3. \<open>commitAndEmit\<close> commits the accumulator and emits, in this order: \<open>deselectEdge\<close> if
  and only if the commit deleted edges, \<open>deselectNode\<close> if and only if it deleted nodes,
  \<open>selectNode\<close> if and only if it added nodes, \<open>selectEdge\<close> if and only if it added edges,
  and last \<open>select\<close> if and only if one of the four was emitted. The two deselect events
  carry the selection committed before this commit as \<open>previousSelection\<close>, the others carry
  none; every event carries the ids of the selection after the commit.
\<close>

theorem commitAndEmit_events:
  "(let changes = fst (commit (selectionAccumulator h));
        h' = h\<lparr>selectionAccumulator := snd (commit (selectionAccumulator h))\<rparr>;
        previousSelection = Some (committedSelection h);
        edgesDeleted = (deleted (changes_edges changes) \<noteq> []);
        nodesDeleted = (deleted (changes_nodes changes) \<noteq> []);
        nodesAdded = (added (changes_nodes changes) \<noteq> []);
        edgesAdded = (added (changes_edges changes) \<noteq> [])
    in fst (commitAndEmit pointer event h) = Inr ()
       \<and> trace (snd (commitAndEmit pointer event h)) =
           trace h @ map Emitted
             ((if edgesDeleted
               then [click_event ''deselectEdge'' event pointer previousSelection h'] else [])
              @ (if nodesDeleted
                 then [click_event ''deselectNode'' event pointer previousSelection h'] else [])
              @ (if nodesAdded then [click_event ''selectNode'' event pointer None h'] else [])
              @ (if edgesAdded then [click_event ''selectEdge'' event pointer None h'] else [])
              @ (if edgesDeleted \<or> nodesDeleted \<or> nodesAdded \<or> edgesAdded
                 then [click_event ''select'' event pointer None h'] else [])))"
proof -
  obtain changes acc where c: "commit (selectionAccumulator h) = (changes, acc)"
    by (cases "commit (selectionAccumulator h)")
  have prev: "(previous (changes_nodes changes), previous (changes_edges changes))
                = committedSelection h"
    using c by (auto simp: commit_def commit_collection_def committedSelection_def Let_def
        split: prod.splits)
  show ?thesis
    unfolding Let_def commitAndEmit_def c prod.case fst_conv snd_conv prev
    by (simp add: generateClickEvent_other bind_h_def)
qed

theorem commitAndEmit_events_witness:
  "emissions (trace (snd (commitAndEmit \<lparr>px = 5, py = 5\<rparr> \<lparr>controlEdge = None\<rparr>
                             (unselectAll selected_a))))
     = [ClickEvent ''deselectNode''
          \<lparr>bp_pointer = Some (\<lparr>px = 5, py = 5\<rparr>, \<lparr>px = 5, py = 5\<rparr>),
           bp_event = \<lparr>controlEdge = None\<rparr>,
           cp_nodes = [], cp_edges = [], cp_previousSelection = Some ([0], []),
           cp_items = None, cp_controlEdge = None\<rparr>,
        ClickEvent ''select''
          \<lparr>bp_pointer = Some (\<lparr>px = 5, py = 5\<rparr>, \<lparr>px = 5, py = 5\<rparr>),
           bp_event = \<lparr>controlEdge = None\<rparr>,
           cp_nodes = [], cp_edges = [], cp_previousSelection = None,
           cp_items = None, cp_controlEdge = None\<rparr>]"
  using commitAndEmit_events [of "unselectAll selected_a" "\<lparr>px = 5, py = 5\<rparr>" "\<lparr>controlEdge = None\<rparr>"]
  by (simp add: Let_def unselectAll_def called_def selected_a_def empty_handler_def clear_def
      stage_def commit_def commit_collection_def current_def committedSelection_def
      click_event_def getSelectedNodeIds_def getSelectedEdgeIds_def getNodes_def getEdges_def)

section \<open>The nearest edge\<close>

lemma getEdgeAt_loop_pick:
  "list_all (\<lambda>edgeId.
        case map_of (body_edges h) edgeId of
          None \<Rightarrow> False
        | Some r \<Rightarrow> \<not> edge_connected (edgeObjects h r)
                    \<or> (edge_from (edgeObjects h r) \<noteq> None \<and> edge_to (edgeObjects h r) \<noteq> None)) ids
   \<Longrightarrow> getEdgeAt_loop h canvasPos ids m b
        = Inr (pick m b (List.map_filter (edge_distance h canvasPos) ids))"
proof (induction ids arbitrary: m b)
  case Nil
  then show ?case by (simp add: map_filter_simps)
next
  case (Cons i ids)
  then show ?case
    by (auto simp: map_filter_simps edge_distance_def Let_def split: option.splits)
qed

lemma pick_min:
  "pick m b ds =
     (if ds \<noteq> [] \<and> Min (set (map snd ds)) < m
      then map_option fst (find (\<lambda>p. snd p = Min (set (map snd ds))) ds)
      else b)"
proof (induction ds arbitrary: m b)
  case Nil
  then show ?case by simp
next
  case (Cons p ds)
  show ?case
  proof (cases "ds = []")
    case True
    then show ?thesis by simp
  next
    case False
    define M where "M = Min (set (map snd ds))"
    have Mimg [simp]: "Min (snd ` set ds) = M"
      by (simp add: M_def)
    have M': "Min (set (map snd (p # ds))) = min (snd p) M"
      using False by simp
    show ?thesis
    proof (cases "snd p < m")
      case True
      show ?thesis
      proof (cases "M < snd p")
        case lt: True
        then have "min (snd p) M = M" "snd p \<noteq> M" "M < m" using True by auto
        then show ?thesis
          using True lt False Cons.IH [of "snd p" "Some (fst p)"]
          by (simp add: M' M_def [symmetric] del: set_map)
      next
        case ge: False
        then have "min (snd p) M = snd p" by auto
        then show ?thesis
          using True ge False Cons.IH [of "snd p" "Some (fst p)"]
          by (simp add: M' M_def [symmetric] del: set_map)
      qed
    next
      case nlt: False
      show ?thesis
      proof (cases "M < m")
        case True
        then have "min (snd p) M = M" "snd p \<noteq> M" using nlt by auto
        then show ?thesis
          using True nlt False Cons.IH [of m b]
          by (simp add: M' M_def [symmetric] del: set_map)
      next
        case False2: False
        then have "\<not> min (snd p) M < m" using nlt by auto
        then show ?thesis
          using False2 nlt False Cons.IH [of m b]
          by (simp add: M' M_def [symmetric] del: set_map)
      qed
    qed
  qed
qed

lemma getEdgeAt_loop_called:
  "getEdgeAt_loop (called c h) canvasPos ids m b = getEdgeAt_loop h canvasPos ids m b"
  by (induction ids arbitrary: m b) (auto simp: called_def Let_def split: option.splits)

lemma body_edgeIndices_called: "body_edgeIndices (called c h) = body_edgeIndices h"
  by (simp add: called_def)

lemma getEdgeAt_refines:
  assumes "edges_well_formed h"
  shows "getEdgeAt pointer h =
           (Inr (case edgeAt_spec h (canvas_DOMtoCanvas h pointer) of
                   None \<Rightarrow> None
                 | Some edgeId \<Rightarrow> map_of (body_edges h) edgeId),
            called GetEdgeAt h)"
proof -
  have wf: "list_all (\<lambda>edgeId.
        case map_of (body_edges h) edgeId of
          None \<Rightarrow> False
        | Some r \<Rightarrow> \<not> edge_connected (edgeObjects h r)
                    \<or> (edge_from (edgeObjects h r) \<noteq> None \<and> edge_to (edgeObjects h r) \<noteq> None))
       (body_edgeIndices h)"
    using assms by (simp add: edges_well_formed_def)
  have "getEdgeAt_loop (called GetEdgeAt h) (canvas_DOMtoCanvas h pointer)
            (body_edgeIndices (called GetEdgeAt h)) 10 None
          = Inr (edgeAt_spec h (canvas_DOMtoCanvas h pointer))"
    unfolding getEdgeAt_loop_called body_edgeIndices_called getEdgeAt_loop_pick [OF wf] pick_min
    by (simp add: edgeAt_spec_def edge_distances_def Let_def)
  then show ?thesis
    by (simp add: getEdgeAt_def Let_def called_def split: option.splits)
qed

lemma getDistanceToLine_perpendicular:
  assumes ne: "(x1, y1) \<noteq> (x2, y2)"
    and len: "len = sqrt ((x2 - x1)\<^sup>2 + (y2 - y1)\<^sup>2)"
  shows "getDistanceToLine x1 y1 x2 y2
           ((x1 + x2) / 2 - d * (y2 - y1) / len) ((y1 + y2) / 2 + d * (x2 - x1) / len) = \<bar>d\<bar>"
proof -
  define dx where "dx = x2 - x1"
  define dy where "dy = y2 - y1"
  define X where "X = (x1 + x2) / 2 - d * dy / len"
  define Y where "Y = (y1 + y2) / 2 + d * dx / len"
  have l2: "dx * dx + dy * dy > 0"
    using ne by (auto simp: dx_def dy_def sum_squares_gt_zero_iff)
  then have nz: "(dx * dx + dy * dy = 0) = False" by auto
  have len2: "len * len = dx * dx + dy * dy" and lenpos: "len > 0"
    using l2 by (simp_all add: len dx_def dy_def power2_eq_square [symmetric])
  have num: "(X - x1) * dx + (Y - y1) * dy = (dx * dx + dy * dy) / 2"
    using lenpos by (simp add: X_def Y_def dx_def dy_def field_simps)
  have u: "max 0 (min 1 (((dx * dx + dy * dy) / 2) / (dx * dx + dy * dy))) = (1 / 2 :: real)"
    using l2 by simp
  have sq: "(x1 + 1 / 2 * dx - X)\<^sup>2 + (y1 + 1 / 2 * dy - Y)\<^sup>2 = d\<^sup>2"
  proof -
    have a1: "x1 + 1 / 2 * dx - X = d * dy / len"
      by (simp add: X_def dx_def field_simps)
    have a2: "y1 + 1 / 2 * dy - Y = - (d * dx / len)"
      by (simp add: Y_def dy_def field_simps)
    have a3: "(d * dy / len)\<^sup>2 + (- (d * dx / len))\<^sup>2 = d\<^sup>2"
    proof -
      have "(d * dy / len)\<^sup>2 + (- (d * dx / len))\<^sup>2
              = (d\<^sup>2 * (dy * dy) + d\<^sup>2 * (dx * dx)) / (len * len)"
        by (simp add: power2_eq_square add_divide_distrib mult_ac)
      also have "\<dots> = d\<^sup>2 * (dx * dx + dy * dy) / (len * len)"
        by (simp add: algebra_simps)
      also have "\<dots> = d\<^sup>2"
      proof -
        have "d\<^sup>2 * q / q = d\<^sup>2" if "q > 0" for q :: real using that by simp
        from this [OF l2] show ?thesis by (simp only: len2)
      qed
      finally show ?thesis .
    qed
    show ?thesis unfolding a1 a2 by (rule a3)
  qed
  have "getDistanceToLine x1 y1 x2 y2 X Y
          = sqrt ((x1 + (if dx * dx + dy * dy = 0 then 0
                         else max 0 (min 1 (((X - x1) * dx + (Y - y1) * dy) / (dx * dx + dy * dy))))
                       * dx - X)\<^sup>2
                + (y1 + (if dx * dx + dy * dy = 0 then 0
                         else max 0 (min 1 (((X - x1) * dx + (Y - y1) * dy) / (dx * dx + dy * dy))))
                       * dy - Y)\<^sup>2)"
    by (simp only: getDistanceToLine_def Let_def dx_def dy_def)
  also have "\<dots> = sqrt (d\<^sup>2)"
    by (simp only: nz if_False num u sq)
  finally show ?thesis
    by (simp add: X_def Y_def dx_def dy_def)
qed


lemma getEdgeAt_single_straight:
  assumes ix: "body_edgeIndices h = [i]" and r: "map_of (body_edges h) i = Some r"
    and st: "straight_edge_between h r f t"
    and p: "canvas_DOMtoCanvas h pointer = beside_midpoint (nodeObjects h f) (nodeObjects h t) d"
  shows "fst (getEdgeAt pointer h) = Inr (if \<bar>d\<bar> < 10 then Some r else None)"
proof -
  have wf: "edges_well_formed h"
    using ix r st by (simp add: edges_well_formed_def straight_edge_between_def)
  have ne: "(node_x (nodeObjects h f), node_y (nodeObjects h f))
              \<noteq> (node_x (nodeObjects h t), node_y (nodeObjects h t))"
    using st by (simp add: straight_edge_between_def)
  have dist: "edge_distance h (canvas_DOMtoCanvas h pointer) i = Some (i, \<bar>d\<bar>)"
    using r st getDistanceToLine_perpendicular [OF ne refl, of d]
    by (simp add: edge_distance_def straight_edge_between_def p beside_midpoint_def Let_def)
  have "edgeAt_spec h (canvas_DOMtoCanvas h pointer) = (if \<bar>d\<bar> < 10 then Some i else None)"
    by (simp add: edgeAt_spec_def edge_distances_def ix dist map_filter_simps)
  then show ?thesis
    using r by (simp add: getEdgeAt_refines [OF wf])
qed

text \<open>
  C6. \<open>getEdgeAt\<close> looks at the connected edges only, takes each one's distance to the
  pointer from the edge's \<open>getDistanceToEdge\<close>, and returns an edge if and only if the least
  of these distances is below 10, namely the first edge in iteration order at that least
  distance; otherwise it returns none. For a single straight edge and a pointer \<open>d\<close> units
  beside its midpoint the edge is hit if and only if \<open>|d| < 10\<close>: at 9 units it is, at 11
  units it is not.
\<close>

theorem getEdgeAt_nearest_within_tolerance:
  "(edges_well_formed h \<longrightarrow>
      getEdgeAt pointer h =
        (Inr (case edgeAt_spec h (canvas_DOMtoCanvas h pointer) of
                None \<Rightarrow> None
              | Some edgeId \<Rightarrow> map_of (body_edges h) edgeId),
         called GetEdgeAt h))
   \<and> (body_edgeIndices h = [i] \<and> map_of (body_edges h) i = Some r
       \<and> straight_edge_between h r f t
       \<and> canvas_DOMtoCanvas h pointer = beside_midpoint (nodeObjects h f) (nodeObjects h t) d
      \<longrightarrow> fst (getEdgeAt pointer h) = Inr (if \<bar>d\<bar> < 10 then Some r else None))"
  using getEdgeAt_refines getEdgeAt_single_straight by blast

theorem getEdgeAt_nearest_within_tolerance_witness:
  "edges_well_formed one_edge
   \<and> fst (getEdgeAt \<lparr>px = 1, py = 9\<rparr> one_edge) = Inr (Some 0)
   \<and> fst (getEdgeAt \<lparr>px = 1, py = 11\<rparr> one_edge) = Inr None"
proof -
  have wf: "edges_well_formed one_edge"
    by (simp add: edges_well_formed_def one_edge_def empty_handler_def default_edge_def)
  have ix: "body_edgeIndices one_edge = [''ab'']" "map_of (body_edges one_edge) ''ab'' = Some 0"
    by (simp_all add: one_edge_def empty_handler_def)
  have st: "straight_edge_between one_edge 0 0 1"
    by (simp add: straight_edge_between_def one_edge_def empty_handler_def default_edge_def
        default_node_def)
  have p: "canvas_DOMtoCanvas one_edge \<lparr>px = 1, py = d\<rparr>
             = beside_midpoint (nodeObjects one_edge 0) (nodeObjects one_edge 1) d" for d
    by (simp add: beside_midpoint_def one_edge_def empty_handler_def default_node_def Let_def)
  from getEdgeAt_nearest_within_tolerance [of one_edge "\<lparr>px = 1, py = 9\<rparr>" "''ab''" 0 0 1 9]
  have h9: "fst (getEdgeAt \<lparr>px = 1, py = 9\<rparr> one_edge) = Inr (Some 0)"
    using ix st p [of 9] by simp
  from getEdgeAt_nearest_within_tolerance [of one_edge "\<lparr>px = 1, py = 11\<rparr>" "''ab''" 0 0 1 11]
  have h11: "fst (getEdgeAt \<lparr>px = 1, py = 11\<rparr> one_edge) = Inr None"
    using ix st p [of 11] by simp
  from wf h9 h11 show ?thesis by simp
qed

section \<open>The order of the steps of \<open>selectOnPoint\<close>\<close>

lemma trace_called [simp]: "trace (called m h) = trace h @ [Called m]"
  by (simp add: called_def)

lemma getNodeAt_state: "snd (getNodeAt pointer h) = called GetNodeAt h"
  by (simp add: getNodeAt_def Let_def split: sum.splits)






section \<open>Assignment to a plain object\<close>

text \<open>
  \<open>set_property\<close> stores the value under the key and leaves the other keys alone; a new
  array index goes among the indices, before the keys that are none.
\<close>

lemma map_of_set_property:
  "map_of (set_property key r obj) = (map_of obj)(key \<mapsto> r)"
proof (cases "map_of obj key \<noteq> None \<or> \<not> is_index key")
  case True
  then show ?thesis by (simp add: set_property_def update_conv')
next
  case False
  define P where "P = (\<lambda>kv::id \<times> ref. is_index (fst kv) \<and> index_value (fst kv) < index_value key)"
  have none: "map_of obj key = None" using False by simp
  have split: "map_of obj = map_of (dropWhile P obj) ++ map_of (takeWhile P obj)"
    by (metis map_of_append takeWhile_dropWhile_id)
  have "key \<notin> fst ` set obj"
    using none by (simp add: map_of_eq_None_iff)
  then have "key \<notin> fst ` set (takeWhile P obj)"
    by (auto dest: set_takeWhileD)
  then have "map_of (takeWhile P obj) key = None"
    by (simp add: map_of_eq_None_iff)
  then have "map_of (takeWhile P obj @ [(key, r)] @ dropWhile P obj) = (map_of obj)(key \<mapsto> r)"
    unfolding split by (auto simp: map_add_def fun_eq_iff split: option.splits)
  then show ?thesis using False by (simp add: set_property_def P_def)
qed

lemma set_property_index:
  "set_property ''2'' r [(''1'', a), (''10'', b), (''x'', c)]
     = [(''1'', a), (''2'', r), (''10'', b), (''x'', c)]"
  by (simp add: set_property_def is_index_def is_digit_def index_value_def)

section \<open>Hovering: connected edges and subordinate nodes\<close>

lemma hoveredNodes_events_append:
  "hoveredNodes_events (xs @ ys) = hoveredNodes_events xs @ hoveredNodes_events ys"
  by (induction xs rule: hoveredNodes_events.induct) simp_all

lemma quiet_refl [simp]: "quiet_step h h"
  by (simp add: quiet_step_def)

lemma quiet_trans: "quiet_step h h1 \<Longrightarrow> quiet_step h1 h2 \<Longrightarrow> quiet_step h h2"
  by (simp add: quiet_step_def)

lemma quiet_called: "quiet_step h (called m h)"
  by (simp add: quiet_step_def called_def hoveredNodes_events_append)

lemma quiet_setNodeHover: "quiet_step h (setNodeHover r b h)"
  by (simp add: quiet_step_def setNodeHover_def)

lemma quiet_setEdgeHover: "quiet_step h (setEdgeHover r b h)"
  by (simp add: quiet_step_def setEdgeHover_def)

lemma quiet_addToHover: "quiet_step h (addToHover obj h)"
  by (simp add: quiet_step_def addToHover_def split: object.splits)

lemma quiet_hoverObj_nodes: "quiet_step h (h\<lparr>hoverObj_nodes := x\<rparr>)"
  by (simp add: quiet_step_def)

lemma quiet_hoverObj_edges: "quiet_step h (h\<lparr>hoverObj_edges := x\<rparr>)"
  by (simp add: quiet_step_def)

lemma quiet_emit_HoverEvent: "quiet_step h (emit (HoverEvent name props i) h)"
  by (simp add: quiet_step_def emit_def hoveredNodes_events_append)

lemma quiet_emitBlurEvent: "quiet_step h (emitBlurEvent event pointer obj h)"
proof (cases obj)
  case (Node r)
  have "quiet_step h (emit (HoverEvent name props i) (setNodeHover r False h))" for name props i
    by (rule quiet_trans [OF quiet_setNodeHover quiet_emit_HoverEvent])
  then show ?thesis using Node by (simp add: emitBlurEvent_def Let_def)
next
  case (Edge r)
  have "quiet_step h (emit (HoverEvent name props i) (setEdgeHover r False h))" for name props i
    by (rule quiet_trans [OF quiet_setEdgeHover quiet_emit_HoverEvent])
  then show ?thesis using Edge by (simp add: emitBlurEvent_def Let_def)
qed

lemma quiet_emitHoverEvent: "quiet_step h (snd (emitHoverEvent event pointer obj h))"
proof (cases obj)
  case (Node r)
  have "quiet_step h (emit (HoverEvent name props i) (addToHover ob (setNodeHover r True h)))"
    for name props i ob
    by (rule quiet_trans [OF quiet_setNodeHover quiet_trans [OF quiet_addToHover quiet_emit_HoverEvent]])
  then show ?thesis using Node by (simp add: emitHoverEvent_def Let_def)
next
  case (Edge r)
  have "quiet_step h (emit (HoverEvent name props i) (addToHover ob (setEdgeHover r True h)))"
    for name props i ob
    by (rule quiet_trans [OF quiet_setEdgeHover quiet_trans [OF quiet_addToHover quiet_emit_HoverEvent]])
  then show ?thesis using Edge by (simp add: emitHoverEvent_def Let_def)
qed

lemma quiet_blurNodes_loop:
  "quiet_step h0 h \<Longrightarrow> quiet_step h0 (snd (blurNodes_loop event pointer object ids hc h))"
proof (induction ids arbitrary: hc h)
  case Nil
  then show ?case by simp
next
  case (Cons i ids)
  have step: "quiet_step h0 ((emitBlurEvent event pointer (Node r) h)\<lparr>hoverObj_nodes := x\<rparr>)" for r x
    by (rule quiet_trans [OF Cons.prems quiet_trans [OF quiet_emitBlurEvent quiet_hoverObj_nodes]])
  show ?case
  proof (cases "map_of (hoverObj_nodes h) i")
    case None
    then show ?thesis using Cons.prems by (simp add: Cons.IH)
  next
    case (Some r)
    then show ?thesis using Cons.prems step by (simp add: Cons.IH)
  qed
qed

lemma quiet_blurEdges_loop:
  "quiet_step h0 h \<Longrightarrow> quiet_step h0 (snd (blurEdges_loop event pointer object ids hc h))"
proof (induction ids arbitrary: hc h)
  case Nil
  then show ?case by simp
next
  case (Cons i ids)
  have step1: "quiet_step h0 ((emitBlurEvent event pointer (Edge r) h)\<lparr>hoverObj_edges := x\<rparr>)" for r x
    by (rule quiet_trans [OF Cons.prems quiet_trans [OF quiet_emitBlurEvent quiet_hoverObj_edges]])
  have step2: "quiet_step h0 ((setEdgeHover r False h)\<lparr>hoverObj_edges := x\<rparr>)" for r x
    by (rule quiet_trans [OF Cons.prems quiet_trans [OF quiet_setEdgeHover quiet_hoverObj_edges]])
  show ?case
  proof (cases "map_of (hoverObj_edges h) i")
    case None
    then show ?thesis using Cons.prems by (simp add: Cons.IH)
  next
    case (Some r)
    then show ?thesis using Cons.prems step1 step2 by (simp add: Cons.IH)
  qed
qed

lemma hoverAllNodes_loop_never_runs: "hoverAllNodes_loop i h = (Inr (), h)"
  by (subst hoverAllNodes_loop.simps) (simp add: get_property_def split: option.splits)

lemma quiet_hoverEdges_loop:
  "quiet_step h0 h \<Longrightarrow> quiet_step h0 (hoverEdges_loop rs h)"
proof (induction rs arbitrary: h)
  case Nil
  then show ?case by simp
next
  case (Cons r rs)
  have "quiet_step h0 (addToHover (Edge r) (setEdgeHover r True h))"
    by (rule quiet_trans [OF Cons.prems quiet_trans [OF quiet_setEdgeHover quiet_addToHover]])
  then show ?case by (simp add: Cons.IH)
qed

lemma hoverConnectedEdges_eq:
  "hoverConnectedEdges n h = (Inr (), hoverEdges_loop (node_edges (nodeObjects h n)) h)"
  by (simp add: hoverConnectedEdges_def hoverAllNodes_loop_never_runs bind_h_def)

lemma quiet_hoverSubordinates_loop:
  "quiet_step h0 h \<Longrightarrow> quiet_step h0 (hoverSubordinates_loop event pointer ids h)"
proof (induction ids arbitrary: h)
  case Nil
  then show ?case by simp
next
  case (Cons i ids)
  have "quiet_step h0 (snd (emitHoverEvent event pointer (Node r) h))" for r
    by (rule quiet_trans [OF Cons.prems quiet_emitHoverEvent])
  then show ?case
    using Cons.prems by (cases "map_of (body_nodes h) (key_of i)") (simp_all add: Cons.IH)
qed

text \<open>
  The walk reads the ids and the levels of the nodes and the ends of the edges: it gives the
  same list in two states that differ by a quiet step.
\<close>

lemma find_subordinate_edges_quiet:
  assumes nodes: "\<And>nodeId acc. find_subordinate_nodes n g nodeId acc = find_subordinate_nodes n h nodeId acc"
  shows "list_all2 (\<lambda>e e'. edge_fromId e = edge_fromId e' \<and> edge_eventualId e = edge_eventualId e')
           es es'
     \<Longrightarrow> find_subordinate_edges n g es acc = find_subordinate_edges n h es' acc"
proof (induction es arbitrary: es' acc)
  case Nil
  then show ?case by simp
next
  case (Cons e es)
  then obtain e' es2 where es': "es' = e' # es2"
    and r: "edge_fromId e = edge_fromId e'" "edge_eventualId e = edge_eventualId e'"
    and rest: "list_all2 (\<lambda>e e'. edge_fromId e = edge_fromId e'
                                  \<and> edge_eventualId e = edge_eventualId e') es es2"
    by (auto simp: list_all2_Cons1)
  show ?case
    unfolding es' by (simp add: nodes r Cons.IH [OF rest] split: option.splits)
qed

lemma edges_with_to_node_quiet:
  "quiet_step h g \<Longrightarrow>
     list_all2 (\<lambda>e e'. edge_fromId e = edge_fromId e' \<and> edge_eventualId e = edge_eventualId e')
       (filter (\<lambda>edge. Some (edge_toId edge) = nodeId) (map (\<lambda>kv. edgeObjects g (snd kv)) xs))
       (filter (\<lambda>edge. Some (edge_toId edge) = nodeId) (map (\<lambda>kv. edgeObjects h (snd kv)) xs))"
  by (induction xs) (auto simp: quiet_step_def)

lemma find_subordinate_nodes_quiet:
  assumes q: "quiet_step h g"
  shows "find_subordinate_nodes n g nodeId acc = find_subordinate_nodes n h nodeId acc"
proof (induction n arbitrary: nodeId acc)
  case 0
  show ?case by simp
next
  case (Suc n)
  have same: "body_nodes g = body_nodes h" "body_edges g = body_edges h"
    "\<And>x. node_level (nodeObjects g x) = node_level (nodeObjects h x)"
    using q by (simp_all add: quiet_step_def)
  have "find_subordinate_edges n g
          (filter (\<lambda>edge. Some (edge_toId edge) = nodeId)
             (map (\<lambda>kv. edgeObjects g (snd kv)) (body_edges h))) acc
      = find_subordinate_edges n h
          (filter (\<lambda>edge. Some (edge_toId edge) = nodeId)
             (map (\<lambda>kv. edgeObjects h (snd kv)) (body_edges h))) acc"
    by (rule find_subordinate_edges_quiet [OF Suc.IH edges_with_to_node_quiet [OF q]])
  then show ?case
    by (cases "map_of (body_nodes h) (key_of nodeId)")
       (simp_all add: same del: find_subordinate_edges.simps)
qed

lemma quiet_hoverObject_blur:
  "object \<noteq> None \<Longrightarrow> quiet_step h0 h \<Longrightarrow>
     quiet_step h0 (snd (hoverObject_blur event pointer object h))"
  by (cases object)
     (simp_all add: hoverObject_blur_def Let_def split_beta quiet_blurEdges_loop quiet_blurNodes_loop)

lemma quiet_hoverObject_emit:
  "quiet_step h0 h \<Longrightarrow> quiet_step h0 (snd (hoverObject_emit event pointer object hc h))"
  by (cases object)
     (auto simp: hoverObject_emit_def Let_def intro: quiet_trans [OF _ quiet_emitHoverEvent])

lemma hoverObject_connected_quiet:
  assumes "quiet_step h0 h"
  shows "\<exists>h'. hoverObject_connected object h = (Inr (), h') \<and> quiet_step h0 h'"
  using assms
  by (cases object) (auto simp: hoverObject_connected_def hoverConnectedEdges_eq quiet_hoverEdges_loop)

lemma hoverObject_subordinates_found:
  assumes q: "quiet_step h g"
    and oid: "node_options_id (nodeObjects h r) = hid"
    and found: "find_subordinate_nodes depth h (Some hid) [] = Some found"
    and drag: "window_isUserDragging h \<noteq> Some True"
  shows "\<exists>g'. hoverObject_subordinates depth event pointer (Node r) hc g = Some (True, g')
            \<and> hoveredNodes_events (trace g')
                = hoveredNodes_events (trace h) @ [found @ [Some hid]]
            \<and> lastHoveredNodes g' = found @ [Some hid]"
proof -
  have g_oid: "\<And>x. node_options_id (nodeObjects g x) = node_options_id (nodeObjects h x)"
    and g_drag: "window_isUserDragging g = window_isUserDragging h"
    using q by (simp_all add: quiet_step_def)
  have dr: "window_isUserDragging g = None \<or> window_isUserDragging g = Some False"
    using drag g_drag by (cases "window_isUserDragging h") auto
  have found': "find_subordinate_nodes depth g (Some hid) [] = Some found"
    using found by (simp add: find_subordinate_nodes_quiet [OF q])
  define g1 where "g1 = hoverSubordinates_loop event pointer found g"
  have q1: "quiet_step h g1"
    unfolding g1_def by (rule quiet_hoverSubordinates_loop [OF q])
  have res: "hoverObject_subordinates depth event pointer (Node r) hc g
        = Some (True, emit (HoveredNodes (found @ [Some hid]))
                        (g1\<lparr>lastHoveredNodes := found @ [Some hid]\<rparr>))"
    using dr by (auto simp: hoverObject_subordinates_def Let_def g_oid oid found' g1_def)
  have "hoveredNodes_events (trace g1) = hoveredNodes_events (trace h)"
    using q1 by (simp add: quiet_step_def)
  then show ?thesis
    unfolding res by (simp add: emit_def hoveredNodes_events_append)
qed

lemma hoverObject_hit_found:
  assumes q: "quiet_step h g"
    and oid: "node_options_id (nodeObjects h r) = hid"
    and found: "find_subordinate_nodes depth h (Some hid) [] = Some found"
    and drag: "window_isUserDragging h \<noteq> Some True"
  shows "\<exists>g'. hoverObject_hit depth event pointer (Node r) hc g = Some (Inr True, g')
            \<and> hoveredNodes_events (trace g')
                = hoveredNodes_events (trace h) @ [found @ [Some hid]]
            \<and> lastHoveredNodes g' = found @ [Some hid]"
proof -
  obtain hc1 g1 where e: "hoverObject_emit event pointer (Node r) hc g = (hc1, g1)"
    by (cases "hoverObject_emit event pointer (Node r) hc g")
  have q1: "quiet_step h g1"
    using quiet_hoverObject_emit [OF q, of event pointer "Node r" hc] e by simp
  obtain g2 where c: "hoverObject_connected (Node r) g1 = (Inr (), g2)" and q2: "quiet_step h g2"
    using hoverObject_connected_quiet [OF q1] by blast
  obtain g' where s: "hoverObject_subordinates depth event pointer (Node r) hc1 g2 = Some (True, g')"
    and ev: "hoveredNodes_events (trace g')
                = hoveredNodes_events (trace h) @ [found @ [Some hid]]"
    and last: "lastHoveredNodes g' = found @ [Some hid]"
    using hoverObject_subordinates_found [OF q2 oid found drag] by blast
  show ?thesis
    using ev last by (simp add: hoverObject_hit_def e c s)
qed

text \<open>
  Whatever is hovered already: when a node is the hover hit, no drag is in progress and
  the walk from the node returns within the depth, \<open>hoverObject\<close> returns and emits exactly
  one \<open>hoveredNodes\<close> event; its list, which is also recorded as \<open>lastHoveredNodes\<close>, is what
  the walk has collected, followed by the id of the hovered node.
\<close>

lemma hoverObject_found:
  assumes hit: "fst (getNodeAt pointer h) = Inr (Some r)"
    and oid: "node_options_id (nodeObjects h r) = hid"
    and found: "find_subordinate_nodes depth h (Some hid) [] = Some found"
    and drag: "window_isUserDragging h \<noteq> Some True"
  shows "\<exists>h'. hoverObject depth event pointer h = Some (Inr (), h')
            \<and> hoveredNodes_events (trace h')
                = hoveredNodes_events (trace h) @ [found @ [Some hid]]
            \<and> lastHoveredNodes h' = found @ [Some hid]"
proof -
  have gn: "getNodeAt pointer h = (Inr (Some r), called GetNodeAt h)"
    using hit getNodeAt_state [of pointer h] by (cases "getNodeAt pointer h") simp
  have q0: "quiet_step h (called GetNodeAt h)" by (rule quiet_called)
  obtain hc3 g3 where b: "hoverObject_blur event pointer (Some (Node r)) (called GetNodeAt h) = (hc3, g3)"
    by (cases "hoverObject_blur event pointer (Some (Node r)) (called GetNodeAt h)")
  have q3: "quiet_step h g3"
    using quiet_hoverObject_blur [OF _ q0, of "Some (Node r)" event pointer] b by simp
  obtain g4 where hitres: "hoverObject_hit depth event pointer (Node r) hc3 g3 = Some (Inr True, g4)"
    and ev: "hoveredNodes_events (trace g4)
                = hoveredNodes_events (trace h) @ [found @ [Some hid]]"
    and last: "lastHoveredNodes g4 = found @ [Some hid]"
    using hoverObject_hit_found [OF q3 oid found drag] by blast
  show ?thesis
    using ev last
    by (simp add: hoverObject_def gn hoverObject_rest_def b hitres Let_def emit_def
        hoveredNodes_events_append)
qed

text \<open>
  The walk from a node of nonzero level with one edge towards it, where the walk goes on
  neither from the \<open>from\<close> end nor from the \<open>eventual\<close> end of that edge: it collects the two
  ends, the second of which is \<open>undefined\<close> on an edge without an eventual node.
\<close>

lemma find_subordinate_nodes_one_edge:
  assumes hid: "map_of (body_nodes g) hid = Some r" and lvl: "node_level (nodeObjects g r) \<noteq> 0"
    and E: "filter (\<lambda>edge. edge_toId edge = hid)
              (map (\<lambda>kv. edgeObjects g (snd kv)) (body_edges g)) = [E]"
    and a0: "\<not> (case map_of (body_nodes g) (edge_fromId E) of
                   None \<Rightarrow> edge_fromId E \<in> set object_prototype_keys
                 | Some ra \<Rightarrow> node_level (nodeObjects g ra) \<noteq> 0)"
    and c0: "\<not> (case map_of (body_nodes g) (key_of (edge_eventualId E)) of
                   None \<Rightarrow> key_of (edge_eventualId E) \<in> set object_prototype_keys
                 | Some rc \<Rightarrow> node_level (nodeObjects g rc) \<noteq> 0)"
  shows "find_subordinate_nodes (Suc (Suc k)) g (Some hid) []
           = Some [Some (edge_fromId E), edge_eventualId E]"
proof -
  have k: "key_of (Some (edge_fromId E)) = edge_fromId E"
    by (simp add: key_of_def)
  have fa: "find_subordinate_nodes (Suc k) g (Some (edge_fromId E)) acc = Some acc" for acc
    using a0 unfolding find_subordinate_nodes.simps k by simp
  have fc: "find_subordinate_nodes (Suc k) g (edge_eventualId E) acc = Some acc" for acc
    using c0 by simp
  have "find_subordinate_edges (Suc k) g [E] [] = Some [Some (edge_fromId E), edge_eventualId E]"
    by (simp add: fa fc del: find_subordinate_nodes.simps)
  then show ?thesis
    using hid lvl E by (simp add: key_of_def del: find_subordinate_edges.simps)
qed

text \<open>
  Where the walk descends: in the network of the nodes \<open>a\<close>, \<open>b\<close>, \<open>c\<close> of level 0, \<open>p\<close> of
  level 1 and \<open>m\<close> of level 2, with the edge from \<open>a\<close> by \<open>p\<close> on to \<open>b\<close> and the edge from \<open>p\<close>
  by \<open>m\<close> on to \<open>c\<close>, the walk from \<open>m\<close> collects the ends \<open>p\<close> and \<open>c\<close> of the second edge and
  then, from \<open>p\<close>, the ends \<open>a\<close> and \<open>b\<close> of the first.
\<close>

lemma find_subordinate_nodes_descends:
  "find_subordinate_nodes 3 two_edges (Some ''m'') []
     = Some [Some ''p'', Some ''c'', Some ''a'', Some ''b'']"
  by (simp add: numeral_3_eq_3 key_of_def object_prototype_keys_def two_edges_def
      empty_handler_def default_node_def default_edge_def)

text \<open>
  With an eventual node the list is as the specification says: hovering \<open>m\<close> in the
  network of one edge from \<open>a\<close> by \<open>m\<close> on to \<open>b\<close> sends \<open>a\<close>, \<open>b\<close> and \<open>m\<close>.
\<close>

lemma hoverObject_chain_network:
  "\<exists>h'. hoverObject 2 \<lparr>controlEdge = None\<rparr> \<lparr>px = 1, py = 5\<rparr> chain_network = Some (Inr (), h')
         \<and> hoveredNodes_events (trace h') = [[Some ''a'', Some ''b'', Some ''m'']]
         \<and> lastHoveredNodes h' = [Some ''a'', Some ''b'', Some ''m'']"
proof -
  have hit: "fst (getNodeAt \<lparr>px = 1, py = 5\<rparr> chain_network) = Inr (Some 2)"
    by (simp add: getNodeAt_def getAllNodesOverlappingWith_def pointerToPositionObject_def
        called_def Let_def chain_network_def empty_handler_def default_node_def)
  have oid: "node_options_id (nodeObjects chain_network 2) = ''m''"
    and hid: "map_of (body_nodes chain_network) ''m'' = Some 2"
    and lvl: "node_level (nodeObjects chain_network 2) \<noteq> 0"
    and drag: "window_isUserDragging chain_network \<noteq> Some True"
    and tr: "trace chain_network = []"
    by (simp_all add: chain_network_def empty_handler_def default_node_def)
  have E: "filter (\<lambda>edge. edge_toId edge = ''m'')
             (map (\<lambda>kv. edgeObjects chain_network (snd kv)) (body_edges chain_network))
           = [edgeObjects chain_network 0]"
    and ends: "edge_fromId (edgeObjects chain_network 0) = ''a''"
      "edge_eventualId (edgeObjects chain_network 0) = Some ''b''"
    by (simp_all add: chain_network_def empty_handler_def default_edge_def)
  have found: "find_subordinate_nodes 2 chain_network (Some ''m'') [] = Some [Some ''a'', Some ''b'']"
    using find_subordinate_nodes_one_edge [OF hid lvl E, of 0]
    by (simp add: ends numeral_2_eq_2 key_of_def)
       (simp add: chain_network_def empty_handler_def default_node_def)
  from hoverObject_found [OF hit oid found drag, of "\<lparr>controlEdge = None\<rparr>"]
  show ?thesis by (simp add: tr)
qed

text \<open>
  C8. The list of the \<open>hoveredNodes\<close> event is not always the intermediate nodes and the
  hovered node. In the network of the level-0 node \<open>a\<close> and the level-2 node \<open>m\<close>, whose
  only edge runs from \<open>a\<close> to \<open>m\<close> and has no eventual node, hovering \<open>m\<close> with nothing
  hovered before and no drag in progress returns and emits one \<open>hoveredNodes\<close> event, which
  is also recorded as \<open>lastHoveredNodes\<close>: its list is \<open>a\<close>, then \<open>undefined\<close> for the
  eventual end that the edge does not have, then \<open>m\<close>.
\<close>

theorem hoverObject_two_node_edge:
  "map_option (\<lambda>r. (fst r, hoveredNodes_events (trace (snd r)), lastHoveredNodes (snd r)))
     (hoverObject 2 \<lparr>controlEdge = None\<rparr> \<lparr>px = 1, py = 5\<rparr> direct_network)
   = Some (Inr (), [[Some ''a'', None, Some ''m'']], [Some ''a'', None, Some ''m''])"
  by (simp add: hoverObject_def hoverObject_rest_def hoverObject_blur_def hoverObject_hit_def
      hoverObject_emit_def hoverObject_connected_def hoverObject_subordinates_def
      hoverConnectedEdges_eq emitHoverEvent_def addToHover_def set_property_def is_index_def
      is_digit_def setNodeHover_def setEdgeHover_def initBaseEvent_def emit_def
      getNodeAt_def getAllNodesOverlappingWith_def pointerToPositionObject_def
      called_def Let_def numeral_2_eq_2 key_of_def object_prototype_keys_def
      direct_network_def empty_handler_def default_node_def default_edge_def)

text \<open>
  C9. \<open>_hoverConnectedEdges\<close> is to set the hover flag on every edge of the hit node and
  on every node of the network. Called for node \<open>a\<close> of the network of the two nodes \<open>a\<close>
  and \<open>b\<close> and the edge between them, it flags the edge and puts it into the hover map,
  and it flags no node and puts none into the hover map: the loop over the nodes is bounded
  by \<open>this.body.nodes.length\<close>, which is not a number, and its body never runs.
\<close>

theorem hoverConnectedEdges_flags_no_node:
  "fst (hoverConnectedEdges 0 one_edge) = Inr ()
   \<and> edge_hover (edgeObjects (snd (hoverConnectedEdges 0 one_edge)) 0)
   \<and> hoverObj_edges (snd (hoverConnectedEdges 0 one_edge)) = [(''ab'', 0)]
   \<and> map (\<lambda>kv. node_hover (nodeObjects (snd (hoverConnectedEdges 0 one_edge)) (snd kv)))
        (body_nodes one_edge) = [False, False]
   \<and> hoverObj_nodes (snd (hoverConnectedEdges 0 one_edge)) = []"
  by (simp add: hoverConnectedEdges_def bind_h_def hoverAllNodes_loop.simps get_property_def
      object_prototype_keys_def addToHover_def set_property_def is_index_def is_digit_def
      setEdgeHover_def one_edge_def empty_handler_def default_node_def default_edge_def)

end
